theory Spec2Isabelle
  imports Main "HOL-Library.Char_ord" "HOL-Library.List_Lexorder"
begin

section \<open>Data model\<close>

text \<open>
  The capability views that \<^verbatim>\<open>Build\<close> and its helpers use. A Go interface whose
  methods only read the image is a record of what the methods return. Go string slices are lists; a Go
  \<^verbatim>\<open>string\<close> is a byte sequence, here a \<^typ>\<open>string\<close>, ordered bytewise as
  \<^verbatim>\<open>sort.Strings\<close> orders it.
\<close>

record BuildpackInfo =
  ID :: string
  Version :: string

record Stack =
  stack_ID :: string
  Mixins :: "string list"

text \<open>An order is a list of groups, a group a list of buildpack references.\<close>

type_synonym OrderEntry = "BuildpackInfo list"
type_synonym Order = "OrderEntry list"

record BuildpackDescriptor =
  Info :: BuildpackInfo
  Stacks :: "Stack list"
  bp_Order :: Order

record BuildpackLayerInfo =
  layer_Stacks :: "Stack list"
  layer_Order :: Order
  LayerDiffID :: string

text \<open>
  \<^verbatim>\<open>builder.BuildpackLayers\<close> is a Go map from buildpack ID to a map from version to
  layer info. Go iterates a map in no fixed order, so the model is an association list in
  the order the iteration happens to take.
\<close>

type_synonym BuildpackLayers = "(string \<times> (string \<times> BuildpackLayerInfo) list) list"

record builderImage =
  builder_CommonMixins :: "string list"
  BuildOnlyMixins :: "string list"
  StackID :: string
  BuildpackLayers :: BuildpackLayers

record runImage =
  run_Name :: string
  run_CommonMixins :: "string list"
  RunOnlyMixins :: "string list"

section \<open>Errors\<close>

text \<open>
  Every \<^verbatim>\<open>return ..., err\<close> of the source is a constructor. \<open>External m\<close> is an
  error with message \<open>m\<close> that a collaborator outside the modelled code returned;
  \<open>Wrapf s args e\<close> is \<^verbatim>\<open>errors.Wrapf(e, s, args...)\<close>, the format \<open>s\<close> written
  without its quotation marks.

  From \<^verbatim>\<open>validateCommonMixins\<close>: \<open>MissingRequiredMixins n s\<close> is
  \<^verbatim>\<open>fmt.Errorf("%s missing required mixin(s): %s", style.Symbol(n), s)\<close>.

  From \<^verbatim>\<open>PackageBuilder.Save\<close>: \<open>BuildpackMustBeSet\<close> is
  \<^verbatim>\<open>"buildpack must be set"\<close>; \<open>MustSupportStackOrOrder i\<close> is
  \<^verbatim>\<open>"buildpack %s must support at least one stack or have an order"\<close> for the buildpack
  \<open>i\<close>; \<open>NoCommonStack i d\<close> is \<^verbatim>\<open>"buildpack %s does not support any stacks from %s"\<close>
  for the main buildpack \<open>i\<close> and the dependency \<open>d\<close>.

  From \<^verbatim>\<open>Build\<close> and the functions it calls: \<open>BuilderRequired\<close> is
  \<^verbatim>\<open>"builder is a required parameter if the client has no default builder"\<close>;
  \<open>RunImageMustBeSpecified\<close> is \<^verbatim>\<open>"run image must be specified"\<close>;
  \<open>RunImageStackMismatch s t\<close> is
  \<^verbatim>\<open>"run-image stack id '%s' does not match builder stack '%s'"\<close>;
  \<open>IncompatiblePlatformAPI v p b q\<close> is
  \<^verbatim>\<open>"pack %s (Platform API version %s) is incompatible with builder %s (Platform API version %s)"\<close>.
\<close>

datatype error =
    External string
  | Wrapf string "string list" error
  | MissingRequiredMixins string string
  | BuildpackMustBeSet
  | MustSupportStackOrOrder BuildpackInfo
  | NoCommonStack BuildpackInfo BuildpackInfo
  | BuilderRequired
  | RunImageMustBeSpecified
  | RunImageStackMismatch string string
  | IncompatiblePlatformAPI string string string string

section \<open>Compatibility of mixins\<close>

text \<open>\<^verbatim>\<open>strings.Join(elems, sep)\<close>.\<close>

fun strings_Join :: "string list \<Rightarrow> string \<Rightarrow> string" where
  "strings_Join [] sep = []"
| "strings_Join [x] sep = x"
| "strings_Join (x # y # ys) sep = x @ sep @ strings_Join (y # ys) sep"

text \<open>
  \<^verbatim>\<open>findMissing\<close>: \<^verbatim>\<open>stringset.FromSlice(actual)\<close> is the set of the elements of
  \<open>actual\<close>; the loop runs over \<open>required\<close> in order and appends to \<open>missing\<close>.
\<close>

definition findMissing :: "string list \<Rightarrow> string list \<Rightarrow> string list" where
  "findMissing actual required =
     foldl (\<lambda>missing m. if m \<in> set actual then missing else missing @ [m]) [] required"

text \<open>
  \<^verbatim>\<open>validateCommonMixins\<close>: the run image's common mixins are the \<open>actual\<close> argument
  and the builder's are the \<open>required\<close> one. \<open>None\<close> is the \<^verbatim>\<open>nil\<close> error.
\<close>

definition validateCommonMixins :: "builderImage \<Rightarrow> runImage \<Rightarrow> error option" where
  "validateCommonMixins builderImg runImg =
     (let missing = findMissing (run_CommonMixins runImg) (builder_CommonMixins builderImg)
      in if length missing > 0
         then Some (MissingRequiredMixins (run_Name runImg) (strings_Join (sort missing) '', ''))
         else None)"

text \<open>
  \<^verbatim>\<open>assembleAvailableMixins\<close>: the loop collects \<open>inBoth\<close> from the run image's common
  mixins, then the three slices are appended.
\<close>

definition assembleAvailableMixins :: "builderImage \<Rightarrow> runImage \<Rightarrow> string list" where
  "assembleAvailableMixins builderImg runImg =
     (let inBoth = foldl (\<lambda>inBoth m. if m \<in> set (builder_CommonMixins builderImg)
                                       then inBoth @ [m] else inBoth)
                         [] (run_CommonMixins runImg)
      in inBoth @ (BuildOnlyMixins builderImg @ RunOnlyMixins runImg))"

section \<open>Example images\<close>

text \<open>
  The pair of the comment in \<^verbatim>\<open>assembleAvailableMixins\<close>: build image mixins \<open>[A]\<close>,
  run image mixins \<open>[A, B]\<close>. Then a builder with common mixins \<open>[B, A]\<close> and a run
  image that has neither, and a run image on which \<open>B\<close> is run-only as well.
\<close>

definition builder_A :: builderImage where
  "builder_A = \<lparr> builder_CommonMixins = [''A''], BuildOnlyMixins = [],
                 StackID = ''io.buildpacks.stacks.bionic'', BuildpackLayers = [] \<rparr>"

definition run_AB :: runImage where
  "run_AB = \<lparr> run_Name = ''cnbs/sample-stack-run:bionic'',
              run_CommonMixins = [''A'', ''B''], RunOnlyMixins = [] \<rparr>"

definition builder_BA :: builderImage where
  "builder_BA = \<lparr> builder_CommonMixins = [''B'', ''A''], BuildOnlyMixins = [],
                  StackID = ''io.buildpacks.stacks.bionic'', BuildpackLayers = [] \<rparr>"

definition run_C :: runImage where
  "run_C = \<lparr> run_Name = ''cnbs/sample-stack-run:bionic'',
             run_CommonMixins = [''C''], RunOnlyMixins = [] \<rparr>"

definition run_A_onlyB :: runImage where
  "run_A_onlyB = \<lparr> run_Name = ''cnbs/sample-stack-run:bionic'',
                   run_CommonMixins = [''A'', ''B''], RunOnlyMixins = [''B''] \<rparr>"

section \<open>Buildpack tokens\<close>

text \<open>The logger is a collaborator; what is logged is returned as a list of lines.\<close>

datatype log = Warn string | Debug string

text \<open>
  \<^verbatim>\<open>strings.Split(s, sep)\<close> for a separator of one byte, which is how
  \<^verbatim>\<open>parseBuildpack\<close> calls it. As in Go's \<^verbatim>\<open>genSplit\<close>, the loop looks for the first
  separator, cuts the segment before it and goes on with the rest; the result always has
  one more element than there are separators, so it is never empty.
\<close>

function strings_Split :: "string \<Rightarrow> char \<Rightarrow> string list" where
  "strings_Split s sep =
     (case dropWhile (\<lambda>c. c \<noteq> sep) s of
        [] \<Rightarrow> [s]
      | _ # rest \<Rightarrow> takeWhile (\<lambda>c. c \<noteq> sep) s # strings_Split rest sep)"
  by pat_completeness auto
termination
proof (relation "measure (\<lambda>(s, sep). length s)")
  show "wf (measure (\<lambda>(s, sep). length s))" by simp
next
  fix s :: string and sep x rest
  assume "dropWhile (\<lambda>c. c \<noteq> sep) s = x # rest"
  then have "length rest < length (dropWhile (\<lambda>c. c \<noteq> sep) s)" by simp
  also have "\<dots> \<le> length s" by (rule length_dropWhile_le)
  finally show "((rest, sep), (s, sep)) \<in> measure (\<lambda>(s, sep). length s)" by simp
qed

text \<open>
  \<^verbatim>\<open>parseBuildpack\<close> returns the warning it logs, the id and the version. \<open>parts ! 0\<close>
  is in range because the split is never empty.
\<close>

definition parseBuildpack :: "string \<Rightarrow> log list \<times> string \<times> string" where
  "parseBuildpack bp =
     (let parts = strings_Split bp (CHR ''@'') in
      if length parts = 2 then
        (if parts ! 1 = ''latest''
         then ([Warn ''@latest syntax is deprecated, will not work in future releases''],
               parts ! 0, '''')
         else ([], parts ! 0, parts ! 1))
      else ([], parts ! 0, ''''))"

section \<open>Proxy configuration\<close>

record ProxyConfig =
  HTTPProxy :: string
  HTTPSProxy :: string
  NoProxy :: string

text \<open>
  The process environment is a map from variable names to values, with names compared
  byte by byte (as on Unix). \<^verbatim>\<open>os.LookupEnv\<close> returns the value and whether the variable
  is present; \<^verbatim>\<open>os.Getenv\<close> returns the empty string for an absent variable.
\<close>

type_synonym environ = "string \<rightharpoonup> string"

definition os_LookupEnv :: "environ \<Rightarrow> string \<Rightarrow> string \<times> bool" where
  "os_LookupEnv env k = (case env k of None \<Rightarrow> ('''', False) | Some v \<Rightarrow> (v, True))"

definition os_Getenv :: "environ \<Rightarrow> string \<Rightarrow> string" where
  "os_Getenv env k = fst (os_LookupEnv env k)"

text \<open>
  \<^verbatim>\<open>processProxyConfig\<close>: \<open>None\<close> is the \<^verbatim>\<open>nil\<close> pointer. The first component of the
  result lists the environment variables the call reads, in order.
\<close>

definition processProxyConfig ::
  "ProxyConfig option \<Rightarrow> environ \<Rightarrow> string list \<times> ProxyConfig" where
  "processProxyConfig config env =
     (case config of
        Some c \<Rightarrow> ([], c)
      | None \<Rightarrow>
          (let (httpProxy, ok) = os_LookupEnv env ''HTTP_PROXY'';
               (r1, httpProxy) = (if \<not> ok then ([''http_proxy''], os_Getenv env ''http_proxy'')
                                  else ([], httpProxy));
               (httpsProxy, ok) = os_LookupEnv env ''HTTPS_PROXY'';
               (r2, httpsProxy) = (if \<not> ok then ([''https_proxy''], os_Getenv env ''https_proxy'')
                                   else ([], httpsProxy));
               (noProxy, ok) = os_LookupEnv env ''NO_PROXY'';
               (r3, noProxy) = (if \<not> ok then ([''no_proxy''], os_Getenv env ''no_proxy'')
                                else ([], noProxy))
           in (''HTTP_PROXY'' # r1 @ ''HTTPS_PROXY'' # r2 @ ''NO_PROXY'' # r3,
               \<lparr> HTTPProxy = httpProxy, HTTPSProxy = httpsProxy, NoProxy = noProxy \<rparr>)))"

text \<open>
  An environment where \<^verbatim>\<open>HTTP_PROXY\<close> is set to the empty string and only lower-case
  variants carry values, and the zero-valued explicit configuration.
\<close>

definition env_upper_empty :: environ where
  "env_upper_empty = [''HTTP_PROXY'' \<mapsto> '''', ''http_proxy'' \<mapsto> ''http://lower:3128'',
                      ''https_proxy'' \<mapsto> ''http://lower:3129'']"

definition zero_ProxyConfig :: ProxyConfig where
  "zero_ProxyConfig = \<lparr> HTTPProxy = '''', HTTPSProxy = '''', NoProxy = '''' \<rparr>"

section \<open>Images and collaborator calls\<close>

text \<open>
  \<^verbatim>\<open>buildpackage.Metadata\<close>, the value of the package label, as \<^verbatim>\<open>Save\<close> builds it.
\<close>

record Metadata =
  md_BuildpackInfo :: BuildpackInfo
  md_Stacks :: "Stack list"

datatype LabelValue =
    MetadataValue Metadata
  | BuildpackLayersValue BuildpackLayers

text \<open>
  Modelled from the spec: the image handle of \<^verbatim>\<open>imgutil\<close>, which is not part of the
  sources. Section 6 gives its contract: a handle has a reference that \<^verbatim>\<open>rename\<close>
  replaces, labels that \<^verbatim>\<open>setLabel\<close> writes, layers that \<^verbatim>\<open>addLayer\<close> appends in
  order, and \<^verbatim>\<open>save\<close> persists it. A handle is a Go pointer: a callee that changes
  it changes the caller's image, so functions that do return the handle they leave behind.
\<close>

record Image =
  Name :: string
  Labels :: "string \<rightharpoonup> LabelValue"
  Layers :: "string list"

text \<open>
  A buildpack is its descriptor and its content (\<^verbatim>\<open>dist.Buildpack\<close> is an interface with
  \<^verbatim>\<open>Descriptor()\<close> and the blob).
\<close>

record Buildpack =
  Descriptor :: BuildpackDescriptor
  Blob :: string

text \<open>
  Modelled from the spec: the builder of \<^verbatim>\<open>internal/builder\<close>, whose source is not
  given. Section 4.3: it is made from an image handle, which it keeps (the same Go
  pointer), and collects the environment, the buildpacks to add and the order that
  replaces the image's own, until its \<^verbatim>\<open>Save\<close> writes them to the handle and persists
  it. \<open>bldr_PlatformAPIVersion\<close> is the platform API version that the image's metadata
  declares.
\<close>

record Builder =
  bldr_image :: Image
  bldr_env :: "(string \<times> string) list"
  bldr_additionalBuildpacks :: "Buildpack list"
  bldr_order :: "Order option"
  bldr_PlatformAPIVersion :: string

text \<open>
  A parsed image reference (\<^verbatim>\<open>name.Reference\<close>), as far as \<^verbatim>\<open>Build\<close> reads it: its
  name and the registry of its context.
\<close>

record ImageRef =
  ref_Name :: string
  ref_RegistryStr :: string

text \<open>\<^verbatim>\<open>build.LifecycleOptions\<close>, with the fields that \<^verbatim>\<open>Build\<close> sets.\<close>

record LifecycleOptions =
  lo_AppPath :: string
  lo_Image :: ImageRef
  lo_Builder :: Builder
  lo_RunImage :: string
  lo_ClearCache :: bool
  lo_Publish :: bool
  lo_HTTPProxy :: string
  lo_HTTPSProxy :: string
  lo_NoProxy :: string
  lo_Network :: string

text \<open>
  The calls a function makes on its collaborators, in order. A call is recorded when it
  is made, whatever it returns. \<open>ImageSave img r\<close> is \<^verbatim>\<open>image.Save()\<close> on a handle in
  state \<open>img\<close>, with \<open>r\<close> the error it returned or \<open>None\<close> when the image was persisted;
  \<open>ImageRemove n\<close> is \<^verbatim>\<open>docker.ImageRemove\<close> of the image named \<open>n\<close>; \<open>Log l\<close> is a
  line given to the logger.
\<close>

datatype call =
    NewImage string bool
  | SetLabel string LabelValue
  | TempDir
  | RemoveAll string
  | BuildpackToLayerTar string BuildpackInfo
  | AddLayer string
  | LayerDiffID string
  | ImageSave Image "string option"
  | Fetch string bool bool
  | Download string
  | ImageRemove string
  | LifecycleExecute LifecycleOptions
  | Log log

fun is_ImageSave :: "call \<Rightarrow> bool" where
  "is_ImageSave (ImageSave img r) = True"
| "is_ImageSave _ = False"

fun is_ImageRemove :: "call \<Rightarrow> bool" where
  "is_ImageRemove (ImageRemove n) = True"
| "is_ImageRemove _ = False"

section \<open>The package builder\<close>

text \<open>The errors of the three checks that \<^verbatim>\<open>Save\<close> makes before it creates an image.\<close>

fun is_validation_error :: "error \<Rightarrow> bool" where
  "is_validation_error BuildpackMustBeSet = True"
| "is_validation_error (MustSupportStackOrOrder i) = True"
| "is_validation_error (NoCommonStack i d) = True"
| "is_validation_error _ = False"

text \<open>
  \<^verbatim>\<open>PackageBuilder\<close>: \<open>buildpack\<close> is \<open>None\<close> while the interface value is \<^verbatim>\<open>nil\<close>.
  The image factory is among the collaborators below.
\<close>

record PackageBuilder =
  buildpack :: "Buildpack option"
  dependencies :: "Buildpack list"

definition NewBuilder :: PackageBuilder where
  "NewBuilder = \<lparr> buildpack = None, dependencies = [] \<rparr>"

definition SetBuildpack :: "PackageBuilder \<Rightarrow> Buildpack \<Rightarrow> PackageBuilder" where
  "SetBuildpack p b = p\<lparr> buildpack := Some b \<rparr>"

definition AddDependency :: "PackageBuilder \<Rightarrow> Buildpack \<Rightarrow> PackageBuilder" where
  "AddDependency p b = p\<lparr> dependencies := dependencies p @ [b] \<rparr>"

text \<open>
  What \<^verbatim>\<open>Save\<close> calls outside this file. Each field gives the outcome of one call: an
  error message (\<open>Some m\<close>, \<open>Inl m\<close>) or success. \<open>MergeCompatible\<close> is
  \<^verbatim>\<open>stack.MergeCompatible\<close>, which is pure; it is a parameter because its source is not
  given.
\<close>

record PackageCollab =
  MergeCompatible :: "Stack list \<Rightarrow> Stack list \<Rightarrow> Stack list"
  NewImage_err :: "string \<Rightarrow> bool \<Rightarrow> string option"
  SetLabel_err :: "Image \<Rightarrow> string \<Rightarrow> string option"
  TempDir_res :: "string + string"
  BuildpackToLayerTar_res :: "string \<Rightarrow> Buildpack \<Rightarrow> string + string"
  AddLayer_err :: "Image \<Rightarrow> string \<Rightarrow> string option"
  LayerDiffID_res :: "string \<Rightarrow> string + string"
  Save_err :: "Image \<Rightarrow> string option"

text \<open>
  Modelled from the spec: the label keys \<^verbatim>\<open>MetadataLabel\<close> and
  \<^verbatim>\<open>dist.BuildpackLayersLabel\<close>, constants declared outside the sources; section 6 gives
  their values.
\<close>

definition MetadataLabel :: string where
  "MetadataLabel = ''io.buildpacks.buildpackage.metadata''"

definition BuildpackLayersLabel :: string where
  "BuildpackLayersLabel = ''io.buildpacks.buildpack.layers''"

text \<open>
  Modelled from the spec: \<^verbatim>\<open>dist.AddBuildpackToLayersMD\<close>, whose source is not given.
  Section 4.2, step 8: it records, under the buildpack's ID and version, its stacks, its
  order and the digest of its layer.
\<close>

fun alist_update :: "'k \<Rightarrow> 'v \<Rightarrow> ('k \<times> 'v) list \<Rightarrow> ('k \<times> 'v) list" where
  "alist_update k v [] = [(k, v)]"
| "alist_update k v ((k', v') # ps) =
     (if k' = k then (k, v) # ps else (k', v') # alist_update k v ps)"

definition AddBuildpackToLayersMD ::
  "BuildpackLayers \<Rightarrow> BuildpackDescriptor \<Rightarrow> string \<Rightarrow> BuildpackLayers" where
  "AddBuildpackToLayersMD layers descriptor diffID =
     (let versions = (case map_of layers (ID (Info descriptor)) of
                        None \<Rightarrow> [] | Some vs \<Rightarrow> vs);
          info = \<lparr> layer_Stacks = Stacks descriptor, layer_Order = bp_Order descriptor,
                   LayerDiffID = diffID \<rparr>
      in alist_update (ID (Info descriptor))
           (alist_update (Version (Info descriptor)) info versions) layers)"

text \<open>
  The loop over the dependencies (lines 55 to 65): the running stack list is merged with
  each dependency's stacks, and the first empty merge is an error.
\<close>

fun mergeDependencies ::
  "(Stack list \<Rightarrow> Stack list \<Rightarrow> Stack list) \<Rightarrow> Buildpack \<Rightarrow> Stack list \<Rightarrow> Buildpack list
     \<Rightarrow> error + Stack list" where
  "mergeDependencies merge main stacks [] = Inr stacks"
| "mergeDependencies merge main stacks (bp # rest) =
     (let bpd = Descriptor bp;
          stacks = merge stacks (Stacks bpd)
      in if length stacks = 0
         then Inl (NoCommonStack (Info (Descriptor main)) (Info bpd))
         else mergeDependencies merge main stacks rest)"

text \<open>
  The loop over \<^verbatim>\<open>append(p.dependencies, p.buildpack)\<close> (lines 86 to 105). It returns
  the calls made and either the first error or the image and the layers metadata.
\<close>

fun addLayers ::
  "PackageCollab \<Rightarrow> string \<Rightarrow> Buildpack list \<Rightarrow> Image \<Rightarrow> BuildpackLayers
     \<Rightarrow> call list \<times> (error + Image \<times> BuildpackLayers)" where
  "addLayers w tmpDir [] img bpLayers = ([], Inr (img, bpLayers))"
| "addLayers w tmpDir (bp # rest) img bpLayers =
     (let info = Info (Descriptor bp) in
      case BuildpackToLayerTar_res w tmpDir bp of
        Inl m \<Rightarrow> ([BuildpackToLayerTar tmpDir info], Inl (External m))
      | Inr bpLayerTar \<Rightarrow>
          (case AddLayer_err w img bpLayerTar of
             Some m \<Rightarrow>
               ([BuildpackToLayerTar tmpDir info, AddLayer bpLayerTar],
                Inl (Wrapf ''adding layer tar for buildpack %s'' [ID info, Version info] (External m)))
           | None \<Rightarrow>
               (let img = img\<lparr> Layers := Layers img @ [bpLayerTar] \<rparr> in
                case LayerDiffID_res w bpLayerTar of
                  Inl m \<Rightarrow>
                    ([BuildpackToLayerTar tmpDir info, AddLayer bpLayerTar,
                      LayerDiffID bpLayerTar],
                     Inl (Wrapf ''getting content hashes for buildpack %s'' [ID info, Version info]
                          (External m)))
                | Inr diffID \<Rightarrow>
                    (let (calls, r) =
                           addLayers w tmpDir rest img
                             (AddBuildpackToLayersMD bpLayers (Descriptor bp) diffID)
                     in ([BuildpackToLayerTar tmpDir info, AddLayer bpLayerTar,
                          LayerDiffID bpLayerTar] @ calls, r)))))"

text \<open>
  Lines 85 to 115, which run once the temporary directory exists; the deferred
  \<^verbatim>\<open>os.RemoveAll(tmpDir)\<close> is added by \<open>Save\<close> after whatever this part does.
\<close>

definition Save_layers ::
  "PackageCollab \<Rightarrow> string \<Rightarrow> Buildpack list \<Rightarrow> Image \<Rightarrow> call list \<times> (error + Image)" where
  "Save_layers w tmpDir bps img =
     (case addLayers w tmpDir bps img [] of
        (calls, Inl e) \<Rightarrow> (calls, Inl e)
      | (calls, Inr (img, bpLayers)) \<Rightarrow>
          (case SetLabel_err w img BuildpackLayersLabel of
             Some m \<Rightarrow>
               (calls @ [SetLabel BuildpackLayersLabel (BuildpackLayersValue bpLayers)],
                Inl (External m))
           | None \<Rightarrow>
               (let img = img\<lparr> Labels := (Labels img)
                                     (BuildpackLayersLabel \<mapsto> BuildpackLayersValue bpLayers) \<rparr>
                in case Save_err w img of
                     Some m \<Rightarrow>
                       (calls @ [SetLabel BuildpackLayersLabel (BuildpackLayersValue bpLayers),
                                 ImageSave img (Some m)],
                        Inl (External m))
                   | None \<Rightarrow>
                       (calls @ [SetLabel BuildpackLayersLabel (BuildpackLayersValue bpLayers),
                                 ImageSave img None],
                        Inr img))))"

text \<open>
  \<^verbatim>\<open>PackageBuilder.Save\<close>. The three checks come first and return with no call made;
  then the image is created, labelled, filled and saved.
\<close>

definition Save ::
  "PackageCollab \<Rightarrow> PackageBuilder \<Rightarrow> string \<Rightarrow> bool \<Rightarrow> call list \<times> (error + Image)" where
  "Save w p repoName publish =
     (case buildpack p of
        None \<Rightarrow> ([], Inl BuildpackMustBeSet)
      | Some main \<Rightarrow>
          (let stacks = Stacks (Descriptor main) in
           if length stacks = 0 \<and> length (bp_Order (Descriptor main)) = 0
           then ([], Inl (MustSupportStackOrOrder (Info (Descriptor main))))
           else
             (case mergeDependencies (MergeCompatible w) main stacks (dependencies p) of
                Inl e \<Rightarrow> ([], Inl e)
              | Inr stacks \<Rightarrow>
                  (case NewImage_err w repoName (\<not> publish) of
                     Some m \<Rightarrow>
                       ([NewImage repoName (\<not> publish)],
                        Inl (Wrapf ''creating image'' [] (External m)))
                   | None \<Rightarrow>
                       (let img = \<lparr> Name = repoName, Labels = Map.empty, Layers = [] \<rparr>;
                            md = MetadataValue \<lparr> md_BuildpackInfo = Info (Descriptor main),
                                                 md_Stacks = stacks \<rparr>
                        in case SetLabel_err w img MetadataLabel of
                             Some m \<Rightarrow>
                               ([NewImage repoName (\<not> publish), SetLabel MetadataLabel md],
                                Inl (External m))
                           | None \<Rightarrow>
                               (let img = img\<lparr> Labels := (Labels img)
                                                     (MetadataLabel \<mapsto> md) \<rparr>
                                in case TempDir_res w of
                                     Inl m \<Rightarrow>
                                       ([NewImage repoName (\<not> publish),
                                         SetLabel MetadataLabel md, TempDir],
                                        Inl (External m))
                                   | Inr tmpDir \<Rightarrow>
                                       (let (calls, r) =
                                              Save_layers w tmpDir (dependencies p @ [main]) img
                                        in ([NewImage repoName (\<not> publish),
                                             SetLabel MetadataLabel md, TempDir]
                                              @ calls @ [RemoveAll tmpDir], r))))))))"

text \<open>
  Modelled from the spec: \<^verbatim>\<open>stack.MergeCompatible\<close>, whose source is not given. Section
  4.1: the stacks present by ID in both sequences, each with the union of the mixins
  declared for that ID on the two sides. It is used only to give the examples a merge.
\<close>

definition stack_MergeCompatible :: "Stack list \<Rightarrow> Stack list \<Rightarrow> Stack list" where
  "stack_MergeCompatible a b =
     concat (map (\<lambda>s. case find (\<lambda>t. stack_ID t = stack_ID s) b of
                         None \<Rightarrow> []
                       | Some t \<Rightarrow> [\<lparr> stack_ID = stack_ID s,
                                       Mixins = sort (remdups (Mixins s @ Mixins t)) \<rparr>]) a)"

section \<open>Example packages\<close>

text \<open>
  Collaborators that all succeed, and the same with an image store whose save fails.
\<close>

definition collab_ok :: PackageCollab where
  "collab_ok = \<lparr> MergeCompatible = stack_MergeCompatible,
                 NewImage_err = (\<lambda>repoName local. None),
                 SetLabel_err = (\<lambda>img key. None),
                 TempDir_res = Inr ''/tmp/create-package'',
                 BuildpackToLayerTar_res = (\<lambda>dir bp. Inr (dir @ ''/'' @ ID (Info (Descriptor bp)) @ ''.tar'')),
                 AddLayer_err = (\<lambda>img tar. None),
                 LayerDiffID_res = (\<lambda>tar. Inr (''sha256:'' @ tar)),
                 Save_err = (\<lambda>img. None) \<rparr>"

definition collab_save_fails :: PackageCollab where
  "collab_save_fails = collab_ok\<lparr> Save_err := (\<lambda>img. Some ''failed to write image'') \<rparr>"

text \<open>
  The buildpack of the tests, and one whose descriptor names the stack \<open>stack.id.1\<close> twice.
\<close>

definition stack_1 :: Stack where
  "stack_1 = \<lparr> stack_ID = ''stack.id.1'', Mixins = [''Mixin-A''] \<rparr>"

definition bp_1 :: Buildpack where
  "bp_1 = \<lparr> Descriptor = \<lparr> Info = \<lparr> ID = ''bp.1.id'', Version = ''bp.1.version'' \<rparr>,
                           Stacks = [stack_1], bp_Order = [] \<rparr>,
            Blob = ''build-contents'' \<rparr>"

definition bp_dup :: Buildpack where
  "bp_dup = \<lparr> Descriptor = \<lparr> Info = \<lparr> ID = ''bp.1.id'', Version = ''bp.1.version'' \<rparr>,
                             Stacks = [stack_1, stack_1], bp_Order = [] \<rparr>,
              Blob = ''build-contents'' \<rparr>"

definition bp_1_tar :: string where
  "bp_1_tar = ''/tmp/create-package/bp.1.id.tar''"

definition bp_1_layers :: BuildpackLayers where
  "bp_1_layers = [(''bp.1.id'', [(''bp.1.version'',
                    \<lparr> layer_Stacks = [stack_1], layer_Order = [],
                      LayerDiffID = ''sha256:/tmp/create-package/bp.1.id.tar'' \<rparr>)])]"

text \<open>The image that packaging \<open>bp_1\<close> alone produces when every collaborator succeeds.\<close>

definition bp_1_package :: Image where
  "bp_1_package =
     \<lparr> Name = ''some/package'',
       Labels = [MetadataLabel \<mapsto> MetadataValue \<lparr> md_BuildpackInfo = Info (Descriptor bp_1),
                                                     md_Stacks = [stack_1] \<rparr>,
                 BuildpackLayersLabel \<mapsto> BuildpackLayersValue bp_1_layers],
       Layers = [bp_1_tar] \<rparr>"

section \<open>The build client\<close>

text \<open>\<^verbatim>\<open>BuildOptions\<close> and \<^verbatim>\<open>ContainerConfig\<close>. Go maps are association lists.\<close>

record ContainerConfig =
  Network :: string

record BuildOptions =
  o_Image :: string
  o_Builder :: string
  o_AppPath :: string
  o_RunImage :: string
  o_AdditionalMirrors :: "(string \<times> string list) list"
  o_Env :: "(string \<times> string) list"
  o_Publish :: bool
  o_NoPull :: bool
  o_ClearCache :: bool
  o_Buildpacks :: "string list"
  o_ProxyConfig :: "ProxyConfig option"
  o_ContainerConfig :: ContainerConfig

text \<open>The stack metadata of a builder, which \<^verbatim>\<open>resolveRunImage\<close> reads.\<close>

record StackMetadata =
  RunImage_Image :: string
  RunImage_Mirrors :: "string list"

text \<open>
  What \<^verbatim>\<open>Build\<close> and its helpers call outside their file: the process environment
  and random generator, the image fetcher, the downloader, the packages \<^verbatim>\<open>stack\<close>,
  \<^verbatim>\<open>builder\<close>, \<^verbatim>\<open>dist\<close> and \<^verbatim>\<open>api\<close>, the lifecycle, and the methods of the client
  that are defined in other files. Each field gives the outcome of a call from its
  arguments: an error message (\<open>Inl m\<close>, \<open>Some m\<close>) or what the call returns.
  \<open>cl_processAppPath\<close>, \<open>cl_isBuildpackID\<close> and \<open>cl_ensureBPSupport\<close> stand for the
  functions of these names, which only ask the file system and the operating system.
  \<open>cl_rand i\<close> is the number that the \<open>i\<close>-th call of \<^verbatim>\<open>rand.Intn(26)\<close> draws.
  \<open>cl_Version\<close> and \<open>cl_PlatformAPIVersion\<close> are the constants \<^verbatim>\<open>cmd.Version\<close> and
  \<^verbatim>\<open>build.PlatformAPIVersion\<close>; \<open>cl_SupportsVersion a b\<close> is
  \<^verbatim>\<open>api.MustParse(a).SupportsVersion(b)\<close>.
\<close>

record Client =
  cl_environ :: environ
  cl_rand :: "nat \<Rightarrow> nat"
  cl_Version :: string
  cl_PlatformAPIVersion :: string
  cl_SupportsVersion :: "string \<Rightarrow> string \<Rightarrow> bool"
  cl_parseTagReference :: "string \<Rightarrow> string + ImageRef"
  cl_processAppPath :: "string \<Rightarrow> string + string"
  cl_ParseReference :: "string \<Rightarrow> string + ImageRef"
  cl_Fetch :: "string \<Rightarrow> bool \<Rightarrow> bool \<Rightarrow> string + Image"
  cl_stack_NewImage :: "Image \<Rightarrow> string + string"
  cl_stack_NewBuildImage :: "Image \<Rightarrow> string + string list \<times> string list"
  cl_builder_NewImage :: "Image \<Rightarrow> string + BuildpackLayers \<times> StackMetadata"
  cl_stack_NewRunImage :: "Image \<Rightarrow> string + string list \<times> string list"
  cl_resolveRunImage ::
    "string \<Rightarrow> string \<Rightarrow> StackMetadata \<Rightarrow> (string \<times> string list) list \<Rightarrow> string"
  cl_isBuildpackID :: "string \<Rightarrow> bool"
  cl_ensureBPSupport :: "string \<Rightarrow> string option"
  cl_Download :: "string \<Rightarrow> string + string"
  cl_NewBuildpack :: "string \<Rightarrow> string + Buildpack"
  cl_EnsureStackSupport ::
    "BuildpackDescriptor \<Rightarrow> string \<Rightarrow> string list \<Rightarrow> bool \<Rightarrow> string option"
  cl_builder_FromImage :: "Image \<Rightarrow> string + string"
  cl_builder_Save_err :: "Builder \<Rightarrow> string option"
  cl_image_Save_err :: "Image \<Rightarrow> string option"
  cl_lifecycle_Execute :: "LifecycleOptions \<Rightarrow> string option"

text \<open>\<open>after pre x\<close> puts the calls \<open>pre\<close>, already made, before those of \<open>x\<close>.\<close>

definition after :: "call list \<Rightarrow> call list \<times> 'a \<Rightarrow> call list \<times> 'a" where
  "after pre x = (pre @ fst x, snd x)"

subsection \<open>The scratch name\<close>

text \<open>
  \<^verbatim>\<open>randString(n)\<close>: byte \<open>i\<close> is \<^verbatim>\<open>'a' + byte(rand.Intn(26))\<close>. The draw is reduced
  modulo 26, the range of \<^verbatim>\<open>rand.Intn(26)\<close>.
\<close>

definition randString :: "(nat \<Rightarrow> nat) \<Rightarrow> nat \<Rightarrow> string" where
  "randString rnd n = map (\<lambda>i. char_of (of_char (CHR ''a'') + rnd i mod 26 :: nat)) [0..<n]"

text \<open>
  The verb \<^verbatim>\<open>%x\<close> of \<^verbatim>\<open>fmt.Sprintf\<close> on a string: two lower-case hexadecimal digits for
  each byte.
\<close>

definition hex_digit :: "nat \<Rightarrow> char" where
  "hex_digit d = ''0123456789abcdef'' ! (d mod 16)"

definition hex_string :: "string \<Rightarrow> string" where
  "hex_string s =
     concat (map (\<lambda>b. [hex_digit (of_char b div 16), hex_digit (of_char b mod 16)]) s)"

text \<open>
  \<^verbatim>\<open>fmt.Sprintf("pack.local/builder/%x:latest", randString(10))\<close>, the name that
  \<^verbatim>\<open>createEphemeralBuilder\<close> gives to the image.
\<close>

definition ephemeralName :: "(nat \<Rightarrow> nat) \<Rightarrow> string" where
  "ephemeralName rnd = ''pack.local/builder/'' @ hex_string (randString rnd 10) @ '':latest''"

subsection \<open>The builder\<close>

text \<open>
  Modelled from the spec: \<^verbatim>\<open>builder.FromImage\<close>, \<^verbatim>\<open>SetEnv\<close>, \<^verbatim>\<open>AddBuildpack\<close>,
  \<^verbatim>\<open>SetOrder\<close> and \<^verbatim>\<open>Save\<close> of \<^verbatim>\<open>internal/builder\<close>, whose source is not given.
  Section 4.3, steps 2 to 6: the builder's metadata is loaded from the image, which can
  fail; the environment, the buildpacks and the order are collected; \<^verbatim>\<open>Save\<close> adds a
  layer for each buildpack to the image handle and persists the handle under the name
  it has, and every step can fail. \<open>builder_Save\<close> returns the calls made, the state
  in which it leaves the image handle, and the error or the builder image.
\<close>

definition builder_FromImage :: "Client \<Rightarrow> Image \<Rightarrow> string + Builder" where
  "builder_FromImage c img =
     (case cl_builder_FromImage c img of
        Inl m \<Rightarrow> Inl m
      | Inr v \<Rightarrow> Inr \<lparr> bldr_image = img, bldr_env = [], bldr_additionalBuildpacks = [],
                       bldr_order = None, bldr_PlatformAPIVersion = v \<rparr>)"

definition builder_SetEnv :: "Builder \<Rightarrow> (string \<times> string) list \<Rightarrow> Builder" where
  "builder_SetEnv bldr env = bldr\<lparr> bldr_env := env \<rparr>"

definition builder_AddBuildpack :: "Builder \<Rightarrow> Buildpack \<Rightarrow> Builder" where
  "builder_AddBuildpack bldr bp =
     bldr\<lparr> bldr_additionalBuildpacks := bldr_additionalBuildpacks bldr @ [bp] \<rparr>"

definition builder_SetOrder :: "Builder \<Rightarrow> Order \<Rightarrow> Builder" where
  "builder_SetOrder bldr newOrder = bldr\<lparr> bldr_order := Some newOrder \<rparr>"

definition builder_Save ::
  "Client \<Rightarrow> Builder \<Rightarrow> call list \<times> Image \<times> (string + Builder)" where
  "builder_Save c bldr =
     (case cl_builder_Save_err c bldr of
        Some m \<Rightarrow> ([], bldr_image bldr, Inl m)
      | None \<Rightarrow>
          (let img = bldr_image bldr;
               img = img\<lparr> Layers := Layers img @ map Blob (bldr_additionalBuildpacks bldr) \<rparr>
           in case cl_image_Save_err c img of
                Some m \<Rightarrow> ([ImageSave img (Some m)], img, Inl m)
              | None \<Rightarrow> ([ImageSave img None], img, Inr (bldr\<lparr> bldr_image := img \<rparr>))))"

subsection \<open>Composing the ephemeral builder\<close>

text \<open>The loop of \<^verbatim>\<open>createEphemeralBuilder\<close> over the buildpacks, with its log lines.\<close>

fun addBuildpacks :: "Builder \<Rightarrow> Buildpack list \<Rightarrow> call list \<times> Builder" where
  "addBuildpacks bldr [] = ([], bldr)"
| "addBuildpacks bldr (bp # rest) =
     (let bpInfo = Info (Descriptor bp)
      in after [Log (Debug (''Adding buildpack '' @ ID bpInfo @ '' version '' @ Version bpInfo
                              @ '' to builder''))]
           (addBuildpacks (builder_AddBuildpack bldr bp) rest))"

text \<open>
  \<^verbatim>\<open>createEphemeralBuilder\<close>. \<^verbatim>\<open>baseBuilderImage.Rename(...)\<close> changes the handle that
  the caller passed, so the result has three parts: the calls made, the state in which
  the caller's handle is left, and the error or the builder. The original name is kept
  for the error messages only.
\<close>

definition createEphemeralBuilder ::
  "Client \<Rightarrow> Image \<Rightarrow> (string \<times> string) list \<Rightarrow> OrderEntry \<Rightarrow> Buildpack list
     \<Rightarrow> call list \<times> Image \<times> (error + Builder)" where
  "createEphemeralBuilder c baseBuilderImage env grp buildpacks =
     (let origBuilderName = Name baseBuilderImage;
          baseBuilderImage = baseBuilderImage\<lparr> Name := ephemeralName (cl_rand c) \<rparr>
      in case builder_FromImage c baseBuilderImage of
           Inl m \<Rightarrow>
             ([], baseBuilderImage,
              Inl (Wrapf ''invalid builder %s'' [origBuilderName] (External m)))
         | Inr bldr \<Rightarrow>
             (let bldr = builder_SetEnv bldr env;
                  added = addBuildpacks bldr buildpacks;
                  bldr = snd added;
                  ordered = (if length grp > 0
                             then ([Log (Debug ''Setting custom order'')],
                                   builder_SetOrder bldr [grp])
                             else ([], bldr));
                  bldr = snd ordered;
                  saved = builder_Save c bldr
              in case snd (snd saved) of
                   Inl m \<Rightarrow>
                     (fst added @ fst ordered @ fst saved, fst (snd saved),
                      Inl (Wrapf ''invalid builder %s'' [origBuilderName] (External m)))
                 | Inr bldrImage \<Rightarrow>
                     (fst added @ fst ordered @ fst saved, fst (snd saved),
                      Inr bldrImage)))"

text \<open>The names under which the calls of a trace save an image.\<close>

fun saved_names :: "call list \<Rightarrow> string list" where
  "saved_names [] = []"
| "saved_names (ImageSave img r # calls) = Name img # saved_names calls"
| "saved_names (_ # calls) = saved_names calls"

subsection \<open>Validation of the run image and of the mixins\<close>

text \<open>\<^verbatim>\<open>processBuilderName\<close>.\<close>

definition processBuilderName :: "Client \<Rightarrow> string \<Rightarrow> error + ImageRef" where
  "processBuilderName c builderName =
     (if builderName = '''' then Inl BuilderRequired
      else case cl_ParseReference c builderName of
             Inl m \<Rightarrow> Inl (External m)
           | Inr r \<Rightarrow> Inr r)"

text \<open>
  \<^verbatim>\<open>validateRunImage\<close>. The run image view has the name of the image fetched and the
  mixins that \<^verbatim>\<open>stack.NewRunImage\<close> reads.
\<close>

definition validateRunImage ::
  "Client \<Rightarrow> string \<Rightarrow> bool \<Rightarrow> bool \<Rightarrow> string \<Rightarrow> call list \<times> (error + runImage)" where
  "validateRunImage c name noPull publish expectedStack =
     after [Fetch name (\<not> publish) (\<not> noPull)]
       (case cl_Fetch c name (\<not> publish) (\<not> noPull) of
          Inl m \<Rightarrow> ([], Inl (External m))
        | Inr img \<Rightarrow>
            (case cl_stack_NewImage c img of
               Inl m \<Rightarrow> ([], Inl (External m))
             | Inr stackID \<Rightarrow>
                 if stackID \<noteq> expectedStack
                 then ([], Inl (RunImageStackMismatch stackID expectedStack))
                 else (case cl_stack_NewRunImage c img of
                         Inl m \<Rightarrow> ([], Inl (External m))
                       | Inr (common, runOnly) \<Rightarrow>
                           ([], Inr \<lparr> run_Name = Name img, run_CommonMixins = common,
                                      RunOnlyMixins = runOnly \<rparr>))))"

text \<open>
  \<^verbatim>\<open>allBuildpacks\<close>: the descriptors of the buildpacks in the builder's layers, in
  the order of the iteration, then those of the additional buildpacks. Its error is
  always \<^verbatim>\<open>nil\<close>.
\<close>

definition allBuildpacks :: "builderImage \<Rightarrow> Buildpack list \<Rightarrow> BuildpackDescriptor list" where
  "allBuildpacks builderImg additionalBuildpacks =
     concat (map (\<lambda>(bpID, bps).
                    map (\<lambda>(ver, bp). \<lparr> Info = \<lparr> ID = bpID, Version = ver \<rparr>,
                                        Stacks = layer_Stacks bp, bp_Order = layer_Order bp \<rparr>)
                        bps)
                 (BuildpackLayers builderImg))
     @ map Descriptor additionalBuildpacks"

text \<open>The loop of \<^verbatim>\<open>validateMixins\<close>: the first buildpack without stack support.\<close>

fun ensureAll ::
  "Client \<Rightarrow> string \<Rightarrow> string list \<Rightarrow> BuildpackDescriptor list \<Rightarrow> error option" where
  "ensureAll c stackID mixins [] = None"
| "ensureAll c stackID mixins (bp # bps) =
     (case cl_EnsureStackSupport c bp stackID mixins True of
        Some m \<Rightarrow> Some (External m)
      | None \<Rightarrow> ensureAll c stackID mixins bps)"

definition validateMixins ::
  "Client \<Rightarrow> Buildpack list \<Rightarrow> builderImage \<Rightarrow> runImage \<Rightarrow> error option" where
  "validateMixins c additionalBuildpacks builderImg runImg =
     (case validateCommonMixins builderImg runImg of
        Some e \<Rightarrow> Some e
      | None \<Rightarrow>
          (let bps = allBuildpacks builderImg additionalBuildpacks;
               mixins = assembleAvailableMixins builderImg runImg
           in ensureAll c (StackID builderImg) mixins bps))"

subsection \<open>Resolving the buildpacks\<close>

text \<open>
  The loop of \<^verbatim>\<open>processBuildpacks\<close>, with the buildpacks fetched and the group built
  so far.
\<close>

fun processBuildpacks_loop ::
  "Client \<Rightarrow> string list \<Rightarrow> Buildpack list \<Rightarrow> OrderEntry
     \<Rightarrow> call list \<times> (error + Buildpack list \<times> OrderEntry)" where
  "processBuildpacks_loop c [] bps grp = ([], Inr (bps, grp))"
| "processBuildpacks_loop c (bp # rest) bps grp =
     (if cl_isBuildpackID c bp then
        (case parseBuildpack bp of
           (logs, bpID, version) \<Rightarrow>
             after (map Log logs)
               (processBuildpacks_loop c rest bps (grp @ [\<lparr> ID = bpID, Version = version \<rparr>])))
      else
        (case cl_ensureBPSupport c bp of
           Some m \<Rightarrow> ([], Inl (Wrapf ''checking buildpack path'' [] (External m)))
         | None \<Rightarrow>
             after [Download bp]
               (case cl_Download c bp of
                  Inl m \<Rightarrow> ([], Inl (Wrapf ''downloading buildpack from %s'' [bp] (External m)))
                | Inr blob \<Rightarrow>
                    (case cl_NewBuildpack c blob of
                       Inl m \<Rightarrow>
                         ([], Inl (Wrapf ''creating buildpack from %s'' [bp] (External m)))
                     | Inr fetchedBP \<Rightarrow>
                         processBuildpacks_loop c rest (bps @ [fetchedBP])
                           (grp @ [Info (Descriptor fetchedBP)])))))"

definition processBuildpacks ::
  "Client \<Rightarrow> string list \<Rightarrow> call list \<times> (error + Buildpack list \<times> OrderEntry)" where
  "processBuildpacks c buildpacks = processBuildpacks_loop c buildpacks [] []"

subsection \<open>Build\<close>

text \<open>
  \<^verbatim>\<open>Build\<close> returns the calls made and the error, \<open>None\<close> for \<^verbatim>\<open>nil\<close>.

  The statement \<^verbatim>\<open>defer c.docker.ImageRemove(..., ephemeralBuilderImage.Name(), ...)\<close>
  evaluates the name when it is reached and makes the call when \<^verbatim>\<open>Build\<close> returns.
  \<open>Build_deferred\<close> is the rest of \<^verbatim>\<open>Build\<close> from this statement on (lines 134 to
  157): the check of the platform API version and the lifecycle, then the deferred call,
  whose own result is dropped.
\<close>

definition Build_deferred ::
  "Client \<Rightarrow> BuildOptions \<Rightarrow> string \<Rightarrow> ImageRef \<Rightarrow> string \<Rightarrow> ProxyConfig \<Rightarrow> Builder
     \<Rightarrow> call list \<times> error option" where
  "Build_deferred c opts appPath imageRef runImageName proxyConfig ephemeralBuilderImage =
     (let deferred = [ImageRemove (Name (bldr_image ephemeralBuilderImage))];
          returned =
            (if \<not> cl_SupportsVersion c (cl_PlatformAPIVersion c)
                     (bldr_PlatformAPIVersion ephemeralBuilderImage)
             then ([],
                   Some (IncompatiblePlatformAPI (cl_Version c) (cl_PlatformAPIVersion c)
                           (o_Builder opts) (bldr_PlatformAPIVersion ephemeralBuilderImage)))
             else
               (let lifecycleOptions =
                      \<lparr> lo_AppPath = appPath, lo_Image = imageRef,
                        lo_Builder = ephemeralBuilderImage, lo_RunImage = runImageName,
                        lo_ClearCache = o_ClearCache opts, lo_Publish = o_Publish opts,
                        lo_HTTPProxy = HTTPProxy proxyConfig,
                        lo_HTTPSProxy = HTTPSProxy proxyConfig,
                        lo_NoProxy = NoProxy proxyConfig,
                        lo_Network = Network (o_ContainerConfig opts) \<rparr>
                in ([LifecycleExecute lifecycleOptions],
                    map_option External (cl_lifecycle_Execute c lifecycleOptions))))
      in (fst returned @ deferred, snd returned))"

definition Build :: "Client \<Rightarrow> BuildOptions \<Rightarrow> call list \<times> error option" where
  "Build c opts =
     (case cl_parseTagReference c (o_Image opts) of
        Inl m \<Rightarrow> ([], Some (Wrapf ''invalid image name %s'' [o_Image opts] (External m)))
      | Inr imageRef \<Rightarrow>
     (case cl_processAppPath c (o_AppPath opts) of
        Inl m \<Rightarrow> ([], Some (Wrapf ''invalid app path %s'' [o_AppPath opts] (External m)))
      | Inr appPath \<Rightarrow>
     (let proxyConfig = snd (processProxyConfig (o_ProxyConfig opts) (cl_environ c)) in
      case processBuilderName c (o_Builder opts) of
        Inl e \<Rightarrow> ([], Some (Wrapf ''invalid builder %s'' [o_Builder opts] e))
      | Inr builderRef \<Rightarrow>
     after [Fetch (ref_Name builderRef) True (\<not> o_NoPull opts)]
     (case cl_Fetch c (ref_Name builderRef) True (\<not> o_NoPull opts) of
        Inl m \<Rightarrow>
          ([], Some (Wrapf ''failed to fetch builder image %s'' [ref_Name builderRef]
                       (External m)))
      | Inr rawBuilderImage \<Rightarrow>
     (case cl_stack_NewImage c rawBuilderImage of
        Inl m \<Rightarrow> ([], Some (External m))
      | Inr stackID \<Rightarrow>
     (case cl_stack_NewBuildImage c rawBuilderImage of
        Inl m \<Rightarrow> ([], Some (External m))
      | Inr (common, buildOnly) \<Rightarrow>
     (case cl_builder_NewImage c rawBuilderImage of
        Inl m \<Rightarrow> ([], Some (External m))
      | Inr (layers, stackMetadata) \<Rightarrow>
     (let builderImg = \<lparr> builder_CommonMixins = common, BuildOnlyMixins = buildOnly,
                         StackID = stackID, BuildpackLayers = layers \<rparr>;
          runImageName = cl_resolveRunImage c (o_RunImage opts) (ref_RegistryStr imageRef)
                           stackMetadata (o_AdditionalMirrors opts)
      in
      if runImageName = '''' then ([], Some RunImageMustBeSpecified)
      else
     (let validated = validateRunImage c runImageName (o_NoPull opts) (o_Publish opts)
                        (StackID builderImg)
      in after (fst validated)
     (case snd validated of
        Inl e \<Rightarrow> ([], Some (Wrapf ''invalid run-image %s'' [runImageName] e))
      | Inr runImg \<Rightarrow>
     (let processed = processBuildpacks c (o_Buildpacks opts)
      in after (fst processed)
     (case snd processed of
        Inl e \<Rightarrow> ([], Some e)
      | Inr (fetchedBPs, grp) \<Rightarrow>
     (case validateMixins c fetchedBPs builderImg runImg of
        Some e \<Rightarrow> ([], Some (Wrapf ''validating stack mixins'' [] e))
      | None \<Rightarrow>
     (let composed = createEphemeralBuilder c rawBuilderImage (o_Env opts) grp fetchedBPs
      in after (fst composed)
     (case snd (snd composed) of
        Inl e \<Rightarrow> ([], Some e)
      | Inr ephemeralBuilderImage \<Rightarrow>
          Build_deferred c opts appPath imageRef runImageName proxyConfig
            ephemeralBuilderImage)))))))))))))))"

section \<open>Example builds\<close>

text \<open>
  A builder image in the local store, a client whose collaborators all succeed and whose
  random draws are \<open>0, 1, 2, ...\<close>, and build options that name no buildpack.
\<close>

definition base_builder :: Image where
  "base_builder = \<lparr> Name = ''cnbs/sample-builder:bionic'', Labels = Map.empty,
                    Layers = [''base-layer''] \<rparr>"

definition run_image :: Image where
  "run_image = \<lparr> Name = ''cnbs/sample-stack-run:bionic'', Labels = Map.empty,
                 Layers = [''run-layer''] \<rparr>"

definition client_ok :: Client where
  "client_ok =
     \<lparr> cl_environ = Map.empty,
       cl_rand = (\<lambda>i. i),
       cl_Version = ''0.6.0'',
       cl_PlatformAPIVersion = ''0.2'',
       cl_SupportsVersion = (\<lambda>a b. a = b),
       cl_parseTagReference = (\<lambda>s. Inr \<lparr> ref_Name = s, ref_RegistryStr = ''index.docker.io'' \<rparr>),
       cl_processAppPath = (\<lambda>p. Inr ''/workspace/app''),
       cl_ParseReference = (\<lambda>s. Inr \<lparr> ref_Name = s, ref_RegistryStr = ''index.docker.io'' \<rparr>),
       cl_Fetch = (\<lambda>n daemon pull. if n = Name base_builder then Inr base_builder
                                      else Inr run_image),
       cl_stack_NewImage = (\<lambda>img. Inr ''io.buildpacks.stacks.bionic''),
       cl_stack_NewBuildImage = (\<lambda>img. Inr ([''A''], [])),
       cl_builder_NewImage =
         (\<lambda>img. Inr ([], \<lparr> RunImage_Image = ''cnbs/sample-stack-run:bionic'',
                            RunImage_Mirrors = [] \<rparr>)),
       cl_stack_NewRunImage = (\<lambda>img. Inr ([''A'', ''B''], [])),
       cl_resolveRunImage = (\<lambda>runImage registry md mirrors.
                               if runImage = '''' then RunImage_Image md else runImage),
       cl_isBuildpackID = (\<lambda>bp. True),
       cl_ensureBPSupport = (\<lambda>bp. None),
       cl_Download = (\<lambda>bp. Inr ''blob''),
       cl_NewBuildpack = (\<lambda>blob. Inr bp_1),
       cl_EnsureStackSupport = (\<lambda>bp stackID mixins validateRunStageMixins. None),
       cl_builder_FromImage = (\<lambda>img. Inr ''0.2''),
       cl_builder_Save_err = (\<lambda>bldr. None),
       cl_image_Save_err = (\<lambda>img. None),
       cl_lifecycle_Execute = (\<lambda>lo. None) \<rparr>"

definition client_old_builder :: Client where
  "client_old_builder = client_ok\<lparr> cl_builder_FromImage := (\<lambda>img. Inr ''0.1'') \<rparr>"

definition client_lifecycle_fails :: Client where
  "client_lifecycle_fails =
     client_ok\<lparr> cl_lifecycle_Execute := (\<lambda>lo. Some ''executing lifecycle'') \<rparr>"

definition build_options :: BuildOptions where
  "build_options =
     \<lparr> o_Image = ''some/app'', o_Builder = ''cnbs/sample-builder:bionic'', o_AppPath = '''',
       o_RunImage = '''', o_AdditionalMirrors = [], o_Env = [], o_Publish = False,
       o_NoPull = False, o_ClearCache = False, o_Buildpacks = [], o_ProxyConfig = None,
       o_ContainerConfig = \<lparr> Network = '''' \<rparr> \<rparr>"

definition scratch_name :: string where
  "scratch_name = ''pack.local/builder/6162636465666768696a:latest''"

definition scratch_image :: Image where
  "scratch_image = \<lparr> Name = scratch_name, Labels = Map.empty, Layers = [''base-layer''] \<rparr>"

section \<open>Properties of findMissing\<close>

lemma findMissing_loop:
  "foldl (\<lambda>missing m. if m \<in> A then missing else missing @ [m]) acc xs
     = acc @ filter (\<lambda>m. m \<notin> A) xs"
  by (induction xs arbitrary: acc) auto

lemma findMissing_filter:
  "findMissing actual required = filter (\<lambda>m. m \<notin> set actual) required"
  by (simp add: findMissing_def findMissing_loop)

lemma findMissing_empty_iff:
  "findMissing actual required = [] \<longleftrightarrow> set required \<subseteq> set actual"
  by (auto simp: findMissing_filter filter_empty_conv)

text \<open>
  C7, as the specification states it, fails: \<^verbatim>\<open>findMissing\<close> does not sort. With
  \<open>actual = [a]\<close> and \<open>required = [c, b]\<close> it returns \<open>[c, b]\<close>, which is not sorted.
\<close>

theorem findMissing_sorted_counterexample:
  "findMissing [''a''] [''c'', ''b''] = [''c'', ''b'']
   \<and> \<not> sorted (findMissing [''a''] [''c'', ''b''])"
  by (simp add: findMissing_def)

text \<open>
  C7, amended: \<^verbatim>\<open>findMissing\<close> returns exactly the elements of \<open>required\<close> that are
  absent from \<open>actual\<close>, in the order (and with the repetitions) they have in \<open>required\<close>,
  so its output is sorted whenever \<open>required\<close> is; an empty \<open>required\<close> gives no entries.
  Sorting is left to the caller.
\<close>

theorem findMissing_spec:
  "findMissing actual required = filter (\<lambda>m. m \<notin> set actual) required
   \<and> set (findMissing actual required) = set required - set actual
   \<and> (sorted required \<longrightarrow> sorted (findMissing actual required))
   \<and> findMissing actual [] = []"
  by (auto simp: findMissing_filter sorted_wrt_filter)

theorem findMissing_spec_witness:
  "findMissing [''b''] [''a'', ''b'', ''c''] = [''a'', ''c'']
   \<and> sorted [''a'', ''b'', ''c'']
   \<and> sorted (findMissing [''b''] [''a'', ''b'', ''c''])"
proof -
  have s: "sorted [''a'', ''b'', ''c'']" by simp
  from findMissing_spec [of "[''b'']" "[''a'', ''b'', ''c'']"] s
  show ?thesis by simp
qed

section \<open>The common-mixin check\<close>

text \<open>
  C1, as the specification states it, fails: the subset test runs the other way. With
  builder common mixins \<open>[A]\<close> and run common mixins \<open>[A, B]\<close> (the pair of the
  comment in \<^verbatim>\<open>assembleAvailableMixins\<close>) the run set is not a subset of the builder
  set, and the check succeeds.
\<close>

theorem validateCommonMixins_subset_counterexample:
  "validateCommonMixins builder_A run_AB = None
   \<and> \<not> set (run_CommonMixins run_AB) \<subseteq> set (builder_CommonMixins builder_A)"
  by (simp add: validateCommonMixins_def findMissing_def builder_A_def run_AB_def)

text \<open>
  C1, amended: the check succeeds if and only if the builder image's common mixins are a
  subset of the run image's common mixins; when it fails, the error names the run image
  and enumerates, sorted and joined by a comma and a space, every common mixin of the
  builder that the run image lacks.
\<close>

theorem validateCommonMixins_spec:
  "(validateCommonMixins builderImg runImg = None
      \<longleftrightarrow> set (builder_CommonMixins builderImg) \<subseteq> set (run_CommonMixins runImg))
   \<and> (validateCommonMixins builderImg runImg \<noteq> None \<longrightarrow>
        validateCommonMixins builderImg runImg =
          Some (MissingRequiredMixins (run_Name runImg)
            (strings_Join
               (sort (filter (\<lambda>m. m \<notin> set (run_CommonMixins runImg))
                             (builder_CommonMixins builderImg)))
               '', '')))"
  by (auto simp: validateCommonMixins_def Let_def findMissing_filter filter_empty_conv)

theorem validateCommonMixins_spec_witness:
  "validateCommonMixins builder_BA run_C
     = Some (MissingRequiredMixins ''cnbs/sample-stack-run:bionic'' ''A, B'')
   \<and> \<not> set (builder_CommonMixins builder_BA) \<subseteq> set (run_CommonMixins run_C)"
proof -
  have ne: "validateCommonMixins builder_BA run_C \<noteq> None"
    by (simp add: validateCommonMixins_def findMissing_def builder_BA_def run_C_def)
  from validateCommonMixins_spec [of builder_BA run_C] ne
  show ?thesis by (simp add: builder_BA_def run_C_def)
qed

section \<open>The mixins available to buildpacks\<close>

lemma inBoth_loop:
  "foldl (\<lambda>inBoth m. if m \<in> A then inBoth @ [m] else inBoth) acc xs
     = acc @ filter (\<lambda>m. m \<in> A) xs"
  by (induction xs arbitrary: acc) auto

lemma assembleAvailableMixins_list:
  "assembleAvailableMixins b r =
     filter (\<lambda>m. m \<in> set (builder_CommonMixins b)) (run_CommonMixins r)
       @ BuildOnlyMixins b @ RunOnlyMixins r"
  by (simp add: assembleAvailableMixins_def inBoth_loop)

text \<open>
  C2: as a set, the result of \<^verbatim>\<open>assembleAvailableMixins\<close> is the intersection of the two
  common sets, united with the builder's build-only and the run image's run-only mixins.
  In particular, with builder common \<open>{A}\<close> and run common \<open>{A, B}\<close>, \<open>B\<close> different
  from \<open>A\<close>, the result contains \<open>B\<close> only if \<open>B\<close> is build-only on the builder or
  run-only on the run image.
\<close>

theorem assembleAvailableMixins_spec:
  "set (assembleAvailableMixins b r) =
      (set (builder_CommonMixins b) \<inter> set (run_CommonMixins r))
        \<union> set (BuildOnlyMixins b) \<union> set (RunOnlyMixins r)
   \<and> (set (builder_CommonMixins b) = {A} \<and> set (run_CommonMixins r) = {A, B} \<and> A \<noteq> B
        \<longrightarrow> (B \<in> set (assembleAvailableMixins b r)
              \<longleftrightarrow> B \<in> set (BuildOnlyMixins b) \<or> B \<in> set (RunOnlyMixins r)))"
  by (auto simp: assembleAvailableMixins_list)

theorem assembleAvailableMixins_spec_witness:
  "assembleAvailableMixins builder_A run_AB = [''A'']
   \<and> ''B'' \<notin> set (assembleAvailableMixins builder_A run_AB)
   \<and> ''B'' \<in> set (assembleAvailableMixins builder_A run_A_onlyB)"
proof -
  have h1: "set (builder_CommonMixins builder_A) = {''A''}
            \<and> set (run_CommonMixins run_AB) = {''A'', ''B''} \<and> ''A'' \<noteq> ''B''"
    by (simp add: builder_A_def run_AB_def)
  have h2: "set (builder_CommonMixins builder_A) = {''A''}
            \<and> set (run_CommonMixins run_A_onlyB) = {''A'', ''B''} \<and> ''A'' \<noteq> ''B''"
    by (simp add: builder_A_def run_A_onlyB_def)
  have l: "assembleAvailableMixins builder_A run_AB = [''A'']"
    by (simp add: assembleAvailableMixins_def builder_A_def run_AB_def)
  from assembleAvailableMixins_spec [of builder_A run_AB "''A''" "''B''"] h1
       assembleAvailableMixins_spec [of builder_A run_A_onlyB "''A''" "''B''"] h2 l
  show ?thesis by (simp add: builder_A_def run_AB_def run_A_onlyB_def)
qed

section \<open>Splitting and parsing buildpack tokens\<close>

declare strings_Split.simps [simp del]

lemma strings_Split_no_sep: "sep \<notin> set s \<Longrightarrow> strings_Split s sep = [s]"
proof -
  assume "sep \<notin> set s"
  then have "dropWhile (\<lambda>c. c \<noteq> sep) s = []" by auto
  then show ?thesis by (subst strings_Split.simps) (simp only: list.case)
qed

lemma strings_Split_append:
  "sep \<notin> set a \<Longrightarrow> strings_Split (a @ sep # b) sep = a # strings_Split b sep"
proof -
  assume h: "sep \<notin> set a"
  then have d: "dropWhile (\<lambda>c. c \<noteq> sep) (a @ sep # b) = sep # b"
    by (induction a) auto
  from h have t: "takeWhile (\<lambda>c. c \<noteq> sep) (a @ sep # b) = a"
    by (induction a) auto
  show ?thesis by (subst strings_Split.simps) (simp add: d t)
qed

lemma strings_Split_two:
  "sep \<notin> set a \<Longrightarrow> sep \<notin> set b \<Longrightarrow> strings_Split (a @ sep # b) sep = [a, b]"
  by (simp add: strings_Split_append strings_Split_no_sep)

lemma strings_Split_not_Nil: "strings_Split s sep \<noteq> []"
  by (subst strings_Split.simps) (simp split: list.splits)

lemma strings_Split_hd: "hd (strings_Split s sep) = takeWhile (\<lambda>c. c \<noteq> sep) s"
  by (subst strings_Split.simps)
     (auto split: list.splits simp: takeWhile_eq_all_conv[THEN iffD2, symmetric])

lemma strings_Split_nth0: "strings_Split s sep ! 0 = takeWhile (\<lambda>c. c \<noteq> sep) s"
  using strings_Split_hd [of s sep] strings_Split_not_Nil [of s sep]
  by (simp add: hd_conv_nth)

lemma strings_Split_length: "length (strings_Split s sep) = Suc (count_list s sep)"
proof (induction s sep rule: strings_Split.induct)
  case (1 s sep)
  show ?case
  proof (cases "dropWhile (\<lambda>c. c \<noteq> sep) s")
    case Nil
    then have "sep \<notin> set s" by auto
    then show ?thesis by (simp add: strings_Split_no_sep)
  next
    case (Cons x rest)
    then have x: "x = sep" using hd_dropWhile[of "\<lambda>c. c \<noteq> sep" s] by auto
    have s: "s = takeWhile (\<lambda>c. c \<noteq> sep) s @ sep # rest"
      using takeWhile_dropWhile_id[of "\<lambda>c. c \<noteq> sep" s] Cons x by simp
    have n: "sep \<notin> set (takeWhile (\<lambda>c. c \<noteq> sep) s)" by (auto dest: set_takeWhileD)
    have "count_list s sep = count_list (takeWhile (\<lambda>c. c \<noteq> sep) s @ sep # rest) sep"
      using s by simp
    also have "\<dots> = Suc (count_list rest sep)" using n by (simp add: count_list_0_iff)
    finally have c: "count_list s sep = Suc (count_list rest sep)" .
    have "strings_Split s sep = takeWhile (\<lambda>c. c \<noteq> sep) s # strings_Split rest sep"
      by (subst strings_Split.simps) (simp add: Cons)
    then show ?thesis using 1[OF Cons] c by simp
  qed
qed

text \<open>
  C9: \<^verbatim>\<open>parseBuildpack\<close> splits the token on \<open>@\<close>. A token \<open>id@v\<close> (neither part
  containing \<open>@\<close>) with \<open>v\<close> other than \<open>latest\<close> yields \<open>(id, v)\<close>; \<open>id@latest\<close>
  yields \<open>(id, "")\<close>; a token without \<open>@\<close> yields itself and \<open>""\<close>; a token with two or
  more \<open>@\<close> yields its first segment and \<open>""\<close>, so the version is dropped.
\<close>

theorem parseBuildpack_spec:
  "(CHR ''@'' \<notin> set i \<and> CHR ''@'' \<notin> set v \<and> v \<noteq> ''latest''
      \<longrightarrow> snd (parseBuildpack (i @ ''@'' @ v)) = (i, v))
   \<and> (CHR ''@'' \<notin> set i \<longrightarrow> snd (parseBuildpack (i @ ''@latest'')) = (i, ''''))
   \<and> (CHR ''@'' \<notin> set bp \<longrightarrow> snd (parseBuildpack bp) = (bp, ''''))
   \<and> (2 \<le> count_list bp (CHR ''@'')
      \<longrightarrow> snd (parseBuildpack bp) = (takeWhile (\<lambda>c. c \<noteq> CHR ''@'') bp, ''''))"
proof (intro conjI impI)
  assume "CHR ''@'' \<notin> set i \<and> CHR ''@'' \<notin> set v \<and> v \<noteq> ''latest''"
  then show "snd (parseBuildpack (i @ ''@'' @ v)) = (i, v)"
    by (simp add: parseBuildpack_def strings_Split_two)
next
  assume "CHR ''@'' \<notin> set i"
  then have "strings_Split (i @ ''@latest'') (CHR ''@'') = [i, ''latest'']"
    using strings_Split_two [of "CHR ''@''" i "''latest''"] by simp
  then show "snd (parseBuildpack (i @ ''@latest'')) = (i, '''')"
    by (simp add: parseBuildpack_def)
next
  assume "CHR ''@'' \<notin> set bp"
  then show "snd (parseBuildpack bp) = (bp, '''')"
    by (simp add: parseBuildpack_def strings_Split_no_sep)
next
  assume "2 \<le> count_list bp (CHR ''@'')"
  then have "length (strings_Split bp (CHR ''@'')) \<noteq> 2"
    by (simp add: strings_Split_length)
  then show "snd (parseBuildpack bp) = (takeWhile (\<lambda>c. c \<noteq> CHR ''@'') bp, '''')"
    by (simp add: parseBuildpack_def Let_def strings_Split_nth0)
qed

theorem parseBuildpack_spec_witness:
  "snd (parseBuildpack ''org.cloudfoundry.node@1.2.3'') = (''org.cloudfoundry.node'', ''1.2.3'')
   \<and> snd (parseBuildpack ''org.cloudfoundry.node@latest'') = (''org.cloudfoundry.node'', '''')
   \<and> snd (parseBuildpack ''org.cloudfoundry.node'') = (''org.cloudfoundry.node'', '''')
   \<and> snd (parseBuildpack ''a@b@c'') = (''a'', '''')"
proof -
  have h1: "CHR ''@'' \<notin> set ''org.cloudfoundry.node'' \<and> CHR ''@'' \<notin> set ''1.2.3''
            \<and> ''1.2.3'' \<noteq> ''latest''" by simp
  have h2: "CHR ''@'' \<notin> set ''org.cloudfoundry.node''" by simp
  have h3: "2 \<le> count_list ''a@b@c'' (CHR ''@'')" by simp
  from parseBuildpack_spec [of "''org.cloudfoundry.node''" "''1.2.3''" "''org.cloudfoundry.node''"]
       parseBuildpack_spec [of "''org.cloudfoundry.node''" "''1.2.3''" "''a@b@c''"] h1 h2 h3
  show ?thesis by simp
qed

section \<open>Resolving the proxy configuration\<close>

text \<open>
  C10: an explicit configuration is returned as it is and no environment variable is
  read, whatever its fields hold. Without one, each upper-case variable that is present
  gives the value, even when that value is empty, and its lower-case variant is then not
  read; the lower-case variant gives the value only when the upper-case one is absent.
\<close>

theorem processProxyConfig_spec:
  "processProxyConfig (Some c) env = ([], c)
   \<and> (env ''HTTP_PROXY'' = Some v1 \<longrightarrow>
        HTTPProxy (snd (processProxyConfig None env)) = v1
        \<and> ''http_proxy'' \<notin> set (fst (processProxyConfig None env)))
   \<and> (env ''HTTP_PROXY'' = None \<longrightarrow>
        HTTPProxy (snd (processProxyConfig None env)) = os_Getenv env ''http_proxy'')
   \<and> (env ''HTTPS_PROXY'' = Some v2 \<longrightarrow>
        HTTPSProxy (snd (processProxyConfig None env)) = v2
        \<and> ''https_proxy'' \<notin> set (fst (processProxyConfig None env)))
   \<and> (env ''HTTPS_PROXY'' = None \<longrightarrow>
        HTTPSProxy (snd (processProxyConfig None env)) = os_Getenv env ''https_proxy'')
   \<and> (env ''NO_PROXY'' = Some v3 \<longrightarrow>
        NoProxy (snd (processProxyConfig None env)) = v3
        \<and> ''no_proxy'' \<notin> set (fst (processProxyConfig None env)))
   \<and> (env ''NO_PROXY'' = None \<longrightarrow>
        NoProxy (snd (processProxyConfig None env)) = os_Getenv env ''no_proxy'')"
  by (simp add: processProxyConfig_def os_LookupEnv_def os_Getenv_def split: option.splits)

theorem processProxyConfig_spec_witness:
  "processProxyConfig (Some zero_ProxyConfig) env_upper_empty = ([], zero_ProxyConfig)
   \<and> HTTPProxy (snd (processProxyConfig None env_upper_empty)) = ''''
   \<and> HTTPSProxy (snd (processProxyConfig None env_upper_empty)) = ''http://lower:3129''
   \<and> NoProxy (snd (processProxyConfig None env_upper_empty)) = ''''
   \<and> fst (processProxyConfig None env_upper_empty)
       = [''HTTP_PROXY'', ''HTTPS_PROXY'', ''https_proxy'', ''NO_PROXY'', ''no_proxy'']"
proof -
  have h1: "env_upper_empty ''HTTP_PROXY'' = Some ''''" by (simp add: env_upper_empty_def)
  have h2: "env_upper_empty ''HTTPS_PROXY'' = None" by (simp add: env_upper_empty_def)
  have h3: "env_upper_empty ''NO_PROXY'' = None" by (simp add: env_upper_empty_def)
  have g2: "os_Getenv env_upper_empty ''https_proxy'' = ''http://lower:3129''"
    by (simp add: os_Getenv_def os_LookupEnv_def env_upper_empty_def)
  have g3: "os_Getenv env_upper_empty ''no_proxy'' = ''''"
    by (simp add: os_Getenv_def os_LookupEnv_def env_upper_empty_def)
  have r: "fst (processProxyConfig None env_upper_empty)
       = [''HTTP_PROXY'', ''HTTPS_PROXY'', ''https_proxy'', ''NO_PROXY'', ''no_proxy'']"
    by (simp add: processProxyConfig_def os_LookupEnv_def h1 h2 h3)
  from processProxyConfig_spec [of zero_ProxyConfig env_upper_empty "''''" "''x''" "''x''"]
       h1 h2 h3 g2 g3 r
  show ?thesis by simp
qed

section \<open>Properties of the package builder\<close>

lemma addLayers_no_ImageSave:
  "filter is_ImageSave (fst (addLayers w t bps img l)) = []"
  by (induction bps arbitrary: img l)
     (auto simp: Let_def case_prod_beta split: sum.splits option.splits)

lemma addLayers_Layers:
  "addLayers w t bps img l = (calls, Inr (img', l')) \<Longrightarrow>
     Name img' = Name img \<and> Labels img' = Labels img
     \<and> (\<exists>tars. Layers img' = Layers img @ tars \<and> length tars = length bps
          \<and> (\<forall>i < length bps. BuildpackToLayerTar_res w t (bps ! i) = Inr (tars ! i)))"
proof (induction bps arbitrary: img l calls)
  case Nil
  then show ?case by simp
next
  case (Cons bp rest)
  from Cons.prems obtain tar d calls' where
    tar: "BuildpackToLayerTar_res w t bp = Inr tar" and
    rest: "addLayers w t rest (img\<lparr>Layers := Layers img @ [tar]\<rparr>)
             (AddBuildpackToLayersMD l (Descriptor bp) d) = (calls', Inr (img', l'))"
    by (auto simp: Let_def split: sum.splits option.splits prod.splits)
  from Cons.IH [OF rest] obtain tars where
    n: "Name img' = Name img" "Labels img' = Labels img" and
    t: "Layers img' = (Layers img @ [tar]) @ tars" "length tars = length rest"
       "\<forall>i < length rest. BuildpackToLayerTar_res w t (rest ! i) = Inr (tars ! i)"
    by auto
  have "\<forall>i < length (bp # rest). BuildpackToLayerTar_res w t ((bp # rest) ! i) = Inr ((tar # tars) ! i)"
    using tar t(3) by (auto simp: nth_Cons split: nat.splits)
  with n t show ?case by (intro conjI exI [of _ "tar # tars"]) auto
qed

lemma Save_layers_ok:
  "snd (Save_layers w t bps img) = Inr img' \<Longrightarrow>
     filter is_ImageSave (fst (Save_layers w t bps img)) = [ImageSave img' None]
     \<and> Save_err w img' = None"
  using addLayers_no_ImageSave [of w t bps img "[]"]
  by (auto simp: Save_layers_def Let_def split: sum.splits option.splits prod.splits)

lemma Save_layers_err:
  "snd (Save_layers w t bps img) = Inl e \<Longrightarrow>
     filter is_ImageSave (fst (Save_layers w t bps img)) = []
     \<or> (\<exists>img' m. filter is_ImageSave (fst (Save_layers w t bps img)) = [ImageSave img' (Some m)]
           \<and> Save_err w img' = Some m \<and> e = External m)"
  using addLayers_no_ImageSave [of w t bps img "[]"]
  by (auto simp: Save_layers_def Let_def split: sum.splits option.splits prod.splits)

lemma addLayers_not_validation:
  "snd (addLayers w t bps img l) = Inl e \<Longrightarrow> \<not> is_validation_error e"
  by (induction bps arbitrary: img l)
     (auto simp: Let_def case_prod_beta split: sum.splits option.splits)

lemma Save_layers_not_validation:
  "snd (Save_layers w t bps img) = Inl e \<Longrightarrow> \<not> is_validation_error e"
  using addLayers_not_validation [of w t bps img "[]"]
  by (auto simp: Save_layers_def Let_def split: sum.splits option.splits prod.splits)

lemma mergeDependencies_error:
  "mergeDependencies merge main stacks deps = Inl e \<Longrightarrow> is_validation_error e"
  by (induction deps arbitrary: stacks) (auto simp: Let_def split: if_splits)

lemma Save_cases:
  "Save w p repoName publish = (calls, r) \<Longrightarrow>
     (calls = [] \<and> (\<exists>e. r = Inl e \<and> is_validation_error e))
   \<or> (\<exists>m. calls = [NewImage repoName (\<not> publish)]
            \<and> r = Inl (Wrapf ''creating image'' [] (External m)))
   \<or> (\<exists>m md. calls = [NewImage repoName (\<not> publish), SetLabel MetadataLabel md]
            \<and> r = Inl (External m))
   \<or> (\<exists>m md. calls = [NewImage repoName (\<not> publish), SetLabel MetadataLabel md, TempDir]
            \<and> r = Inl (External m))
   \<or> (\<exists>main stacks tmpDir md img.
          buildpack p = Some main \<and> TempDir_res w = Inr tmpDir
          \<and> md = MetadataValue \<lparr> md_BuildpackInfo = Info (Descriptor main), md_Stacks = stacks \<rparr>
          \<and> img = \<lparr> Name = repoName, Labels = [MetadataLabel \<mapsto> md], Layers = [] \<rparr>
          \<and> calls = [NewImage repoName (\<not> publish), SetLabel MetadataLabel md, TempDir]
                      @ fst (Save_layers w tmpDir (dependencies p @ [main]) img)
                      @ [RemoveAll tmpDir]
          \<and> r = snd (Save_layers w tmpDir (dependencies p @ [main]) img))"
  by (auto simp: Save_def Let_def case_prod_beta mergeDependencies_error
           split: option.splits sum.splits if_splits)

lemma Save_layers_shape:
  "(filter is_ImageSave (fst (Save_layers w t bps img)) = []
      \<and> (\<exists>e. snd (Save_layers w t bps img) = Inl e \<and> \<not> is_validation_error e))
   \<or> (\<exists>img' r. filter is_ImageSave (fst (Save_layers w t bps img)) = [ImageSave img' r]
         \<and> (snd (Save_layers w t bps img) = Inr img' \<and> r = None \<and> Save_err w img' = None
            \<or> (\<exists>m. snd (Save_layers w t bps img) = Inl (External m) \<and> r = Some m
                    \<and> Save_err w img' = Some m)))"
proof (cases "snd (Save_layers w t bps img)")
  case (Inl e)
  from Save_layers_err [OF Inl] Save_layers_not_validation [OF Inl] Inl
  show ?thesis by auto
next
  case (Inr img')
  from Save_layers_ok [OF Inr] Inr show ?thesis by auto
qed

lemma Save_shape:
  "Save w p repoName publish = (calls, r) \<Longrightarrow>
     (filter is_ImageSave calls = [] \<and> (\<exists>e. r = Inl e \<and> (is_validation_error e \<longrightarrow> calls = [])))
   \<or> (\<exists>img' s. filter is_ImageSave calls = [ImageSave img' s]
         \<and> (r = Inr img' \<and> s = None \<and> Save_err w img' = None
            \<or> (\<exists>m. r = Inl (External m) \<and> s = Some m \<and> Save_err w img' = Some m)))"
proof -
  assume S: "Save w p repoName publish = (calls, r)"
  from Save_cases [OF S] consider
      (early) "filter is_ImageSave calls = []"
              "\<exists>e. r = Inl e \<and> (is_validation_error e \<longrightarrow> calls = [])"
    | (layers) t bps i where
        "filter is_ImageSave calls = filter is_ImageSave (fst (Save_layers w t bps i))"
        "r = snd (Save_layers w t bps i)"
    by auto
  then show ?thesis
  proof cases
    case early
    then show ?thesis by simp
  next
    case layers
    with Save_layers_shape [of w t bps i] show ?thesis by auto
  qed
qed

lemma ImageSave_filter:
  "ImageSave img s \<in> set calls \<Longrightarrow> filter is_ImageSave calls = xs \<Longrightarrow> ImageSave img s \<in> set xs"
  by auto

text \<open>
  C4, amended: every validation failure of \<^verbatim>\<open>PackageBuilder.Save\<close> is returned before
  any call is made, so before an image handle is created and before any layer or label is
  written. On a failure at any step no image has been persisted; the image store's save
  is not even invoked unless the failing step is that save itself, whose error
  \<^verbatim>\<open>Save\<close> then returns. The save is invoked at most once on every path, and exactly
  once, on the image returned, when \<^verbatim>\<open>Save\<close> succeeds.
\<close>

theorem Save_persist:
  "(snd (Save w p repoName publish) = Inl e \<and> is_validation_error e
      \<longrightarrow> fst (Save w p repoName publish) = [])
   \<and> (snd (Save w p repoName publish) = Inl e
      \<longrightarrow> ImageSave img None \<notin> set (fst (Save w p repoName publish)))
   \<and> (snd (Save w p repoName publish) = Inl e
        \<and> ImageSave img s \<in> set (fst (Save w p repoName publish))
      \<longrightarrow> (\<exists>m. s = Some m \<and> Save_err w img = Some m \<and> e = External m))
   \<and> length (filter is_ImageSave (fst (Save w p repoName publish))) \<le> 1
   \<and> (snd (Save w p repoName publish) = Inr img
      \<longrightarrow> filter is_ImageSave (fst (Save w p repoName publish)) = [ImageSave img None])"
proof -
  obtain calls r where S: "Save w p repoName publish = (calls, r)"
    by (cases "Save w p repoName publish")
  note C = Save_shape [OF S]
  have 1: "r = Inl e \<and> is_validation_error e \<longrightarrow> calls = []"
    using C by auto
  have 2: "r = Inl e \<longrightarrow> ImageSave img None \<notin> set calls"
    using C by (auto dest: ImageSave_filter)
  have 3: "r = Inl e \<and> ImageSave img s \<in> set calls
             \<longrightarrow> (\<exists>m. s = Some m \<and> Save_err w img = Some m \<and> e = External m)"
    using C by (auto dest: ImageSave_filter)
  have 4: "length (filter is_ImageSave calls) \<le> 1"
    using C by auto
  have 5: "r = Inr img \<longrightarrow> filter is_ImageSave calls = [ImageSave img None]"
    using C by auto
  from 1 2 3 4 5 S show ?thesis by simp
qed

text \<open>
  C4, as the specification states it, fails at the last step: when \<^verbatim>\<open>image.Save()\<close>
  itself returns an error, \<^verbatim>\<open>Save\<close> fails although the image store's save has been
  invoked. Here every collaborator succeeds except the image store.
\<close>

theorem Save_persist_counterexample:
  "snd (Save collab_save_fails (SetBuildpack NewBuilder bp_1) ''some/package'' False)
     = Inl (External ''failed to write image'')
   \<and> ImageSave bp_1_package (Some ''failed to write image'')
        \<in> set (fst (Save collab_save_fails (SetBuildpack NewBuilder bp_1) ''some/package'' False))"
  by (simp add: Save_def Save_layers_def collab_save_fails_def collab_ok_def SetBuildpack_def
        NewBuilder_def bp_1_def stack_1_def Let_def bp_1_package_def bp_1_tar_def
        bp_1_layers_def AddBuildpackToLayersMD_def)

lemma Save_bp_1:
  "Save collab_ok (SetBuildpack NewBuilder bp_1) ''some/package'' False =
     ([NewImage ''some/package'' True,
       SetLabel MetadataLabel (MetadataValue \<lparr> md_BuildpackInfo = Info (Descriptor bp_1),
                                               md_Stacks = [stack_1] \<rparr>),
       TempDir,
       BuildpackToLayerTar ''/tmp/create-package'' (Info (Descriptor bp_1)),
       AddLayer bp_1_tar, LayerDiffID bp_1_tar,
       SetLabel BuildpackLayersLabel (BuildpackLayersValue bp_1_layers),
       ImageSave bp_1_package None,
       RemoveAll ''/tmp/create-package''],
      Inr bp_1_package)"
  by (simp add: Save_def Save_layers_def collab_ok_def SetBuildpack_def
        NewBuilder_def bp_1_def stack_1_def Let_def bp_1_package_def bp_1_tar_def bp_1_layers_def
        AddBuildpackToLayersMD_def)

lemma Save_bp_1_save_fails:
  "Save collab_save_fails (SetBuildpack NewBuilder bp_1) ''some/package'' False =
     ([NewImage ''some/package'' True,
       SetLabel MetadataLabel (MetadataValue \<lparr> md_BuildpackInfo = Info (Descriptor bp_1),
                                               md_Stacks = [stack_1] \<rparr>),
       TempDir,
       BuildpackToLayerTar ''/tmp/create-package'' (Info (Descriptor bp_1)),
       AddLayer bp_1_tar, LayerDiffID bp_1_tar,
       SetLabel BuildpackLayersLabel (BuildpackLayersValue bp_1_layers),
       ImageSave bp_1_package (Some ''failed to write image''),
       RemoveAll ''/tmp/create-package''],
      Inl (External ''failed to write image''))"
  by (simp add: Save_def Save_layers_def collab_save_fails_def collab_ok_def SetBuildpack_def
        NewBuilder_def bp_1_def stack_1_def Let_def bp_1_package_def bp_1_tar_def bp_1_layers_def
        AddBuildpackToLayersMD_def)

theorem Save_persist_witness:
  "fst (Save collab_ok NewBuilder ''some/package'' False) = []
   \<and> filter is_ImageSave (fst (Save collab_ok (SetBuildpack NewBuilder bp_1) ''some/package'' False))
       = [ImageSave bp_1_package None]
   \<and> snd (Save collab_save_fails (SetBuildpack NewBuilder bp_1) ''some/package'' False)
       = Inl (External ''failed to write image'')
   \<and> ImageSave bp_1_package None
        \<notin> set (fst (Save collab_save_fails (SetBuildpack NewBuilder bp_1) ''some/package'' False))
   \<and> Save_err collab_save_fails bp_1_package = Some ''failed to write image''"
proof -
  have a: "snd (Save collab_ok NewBuilder ''some/package'' False) = Inl BuildpackMustBeSet
           \<and> is_validation_error BuildpackMustBeSet"
    by (simp add: Save_def NewBuilder_def)
  have b: "snd (Save collab_ok (SetBuildpack NewBuilder bp_1) ''some/package'' False)
             = Inr bp_1_package"
    by (simp add: Save_bp_1)
  have c: "snd (Save collab_save_fails (SetBuildpack NewBuilder bp_1) ''some/package'' False)
             = Inl (External ''failed to write image'')"
    by (simp add: Save_bp_1_save_fails)
  have d: "ImageSave bp_1_package (Some ''failed to write image'')
             \<in> set (fst (Save collab_save_fails (SetBuildpack NewBuilder bp_1)
                            ''some/package'' False))"
    by (simp add: Save_bp_1_save_fails)
  from Save_persist [of collab_ok NewBuilder "''some/package''" False BuildpackMustBeSet
                        bp_1_package None]
       Save_persist [of collab_ok "SetBuildpack NewBuilder bp_1" "''some/package''" False
                        BuildpackMustBeSet bp_1_package None]
       Save_persist [of collab_save_fails "SetBuildpack NewBuilder bp_1" "''some/package''" False
                        "External ''failed to write image''" bp_1_package
                        "Some ''failed to write image''"]
       a b c d
  show ?thesis by simp
qed

lemma Save_layers_Layers:
  assumes "snd (Save_layers w t (deps @ [main]) img) = Inr img'"
  shows "Labels img' MetadataLabel = Labels img MetadataLabel
         \<and> Name img' = Name img
         \<and> Layers img' \<noteq> [] \<and> BuildpackToLayerTar_res w t main = Inr (last (Layers img'))"
proof -
  from assms obtain calls img1 l1 where
    a: "addLayers w t (deps @ [main]) img [] = (calls, Inr (img1, l1))" and
    i: "img' = img1\<lparr> Labels := (Labels img1)(BuildpackLayersLabel \<mapsto> BuildpackLayersValue l1) \<rparr>"
    by (auto simp: Save_layers_def Let_def split: sum.splits option.splits prod.splits)
  from addLayers_Layers [OF a] obtain tars where
    n: "Name img1 = Name img" "Labels img1 = Labels img" and
    t: "Layers img1 = Layers img @ tars" "length tars = length (deps @ [main])"
       "\<forall>i < length (deps @ [main]).
           BuildpackToLayerTar_res w t ((deps @ [main]) ! i) = Inr (tars ! i)"
    by auto
  from t(2) have ne: "tars \<noteq> []" by auto
  from t(3) [rule_format, of "length deps"] t(2)
  have "BuildpackToLayerTar_res w t main = Inr (tars ! length deps)" by simp
  moreover from t(2) ne have "tars ! length deps = last tars"
    by (simp add: last_conv_nth)
  ultimately have l: "BuildpackToLayerTar_res w t main = Inr (last (Layers img1))"
    using t(1) ne by simp
  from i n t ne l show ?thesis
    by (simp add: MetadataLabel_def BuildpackLayersLabel_def)
qed

text \<open>
  C6, amended: \<^verbatim>\<open>Save\<close> with no buildpack set fails with \<open>buildpack must be set\<close>,
  before any call is made. A buildpack that has been set is always part of the package:
  whenever \<^verbatim>\<open>Save\<close> succeeds, the metadata label carries its identity and the last
  layer of the image is the layer made from it. There is no failure for a default that is
  not included.
\<close>

theorem Save_default:
  "(buildpack p = None \<longrightarrow> Save w p repoName publish = ([], Inl BuildpackMustBeSet))
   \<and> (buildpack p = Some main \<and> snd (Save w p repoName publish) = Inr img \<longrightarrow>
        (\<exists>stacks. Labels img MetadataLabel
            = Some (MetadataValue \<lparr> md_BuildpackInfo = Info (Descriptor main),
                                     md_Stacks = stacks \<rparr>))
        \<and> Layers img \<noteq> []
        \<and> (\<exists>t. TempDir_res w = Inr t
                \<and> BuildpackToLayerTar_res w t main = Inr (last (Layers img))))"
proof (rule conjI; rule impI)
  assume "buildpack p = None"
  then show "Save w p repoName publish = ([], Inl BuildpackMustBeSet)"
    by (simp add: Save_def)
next
  assume h: "buildpack p = Some main \<and> snd (Save w p repoName publish) = Inr img"
  obtain calls r where S: "Save w p repoName publish = (calls, r)"
    by (cases "Save w p repoName publish")
  with h have r: "r = Inr img" by simp
  from Save_cases [OF S] r h obtain stacks t where
    t: "TempDir_res w = Inr t" and
    l: "snd (Save_layers w t (dependencies p @ [main])
          \<lparr> Name = repoName,
            Labels = [MetadataLabel \<mapsto> MetadataValue
                        \<lparr> md_BuildpackInfo = Info (Descriptor main), md_Stacks = stacks \<rparr>],
            Layers = [] \<rparr>) = Inr img"
    by auto
  from Save_layers_Layers [OF l] t
  show "(\<exists>stacks. Labels img MetadataLabel
            = Some (MetadataValue \<lparr> md_BuildpackInfo = Info (Descriptor main),
                                     md_Stacks = stacks \<rparr>))
        \<and> Layers img \<noteq> []
        \<and> (\<exists>t. TempDir_res w = Inr t
                \<and> BuildpackToLayerTar_res w t main = Inr (last (Layers img)))"
    by auto
qed

theorem Save_default_witness:
  "Save collab_ok NewBuilder ''some/package'' False = ([], Inl BuildpackMustBeSet)
   \<and> Layers bp_1_package \<noteq> []
   \<and> (\<exists>t. TempDir_res collab_ok = Inr t
         \<and> BuildpackToLayerTar_res collab_ok t bp_1 = Inr (last (Layers bp_1_package)))"
proof -
  have a: "buildpack NewBuilder = None" by (simp add: NewBuilder_def)
  have b1: "buildpack (SetBuildpack NewBuilder bp_1) = Some bp_1"
    by (simp add: SetBuildpack_def)
  have b2: "snd (Save collab_ok (SetBuildpack NewBuilder bp_1) ''some/package'' False)
                = Inr bp_1_package"
    by (simp add: Save_bp_1)
  note b = conjI [OF b1 b2]
  from Save_default [of NewBuilder collab_ok "''some/package''" False bp_1 bp_1_package]
       Save_default [of "SetBuildpack NewBuilder bp_1" collab_ok "''some/package''" False
                        bp_1 bp_1_package]
       a b
  show ?thesis by simp
qed

text \<open>
  C6, as the specification states it, fails in its second half. A package builder holds
  the main buildpack itself, not an identity to be looked up among included buildpacks:
  with \<open>bp_1\<close> set and no other buildpack added, its identity is among no added buildpack,
  and \<^verbatim>\<open>Save\<close> succeeds.
\<close>

theorem Save_default_counterexample:
  "buildpack (SetBuildpack NewBuilder bp_1) = Some bp_1
   \<and> Info (Descriptor bp_1)
        \<notin> set (map (\<lambda>b. Info (Descriptor b)) (dependencies (SetBuildpack NewBuilder bp_1)))
   \<and> snd (Save collab_ok (SetBuildpack NewBuilder bp_1) ''some/package'' False)
        = Inr bp_1_package"
proof -
  have "snd (Save collab_ok (SetBuildpack NewBuilder bp_1) ''some/package'' False)
          = Inr bp_1_package"
    by (simp add: Save_bp_1)
  then show ?thesis by (simp add: SetBuildpack_def NewBuilder_def)
qed

text \<open>
  C5, as the specification states it, fails: \<^verbatim>\<open>Save\<close> has no check for a repeated stack
  ID. A package builder has no list of declared stacks; its stacks are those of the main
  buildpack's descriptor. With a descriptor that names \<open>stack.id.1\<close> twice, \<^verbatim>\<open>Save\<close>
  succeeds and the metadata label lists the stack twice.
\<close>

theorem Save_repeated_stack_counterexample:
  "\<not> distinct (map stack_ID (Stacks (Descriptor bp_dup)))
   \<and> \<not> isl (snd (Save collab_ok (SetBuildpack NewBuilder bp_dup) ''some/package'' False))
   \<and> Labels (projr (snd (Save collab_ok (SetBuildpack NewBuilder bp_dup) ''some/package'' False)))
        MetadataLabel
       = Some (MetadataValue \<lparr> md_BuildpackInfo = \<lparr> ID = ''bp.1.id'', Version = ''bp.1.version'' \<rparr>,
                                md_Stacks = [stack_1, stack_1] \<rparr>)"
  by (simp add: Save_def Save_layers_def collab_ok_def SetBuildpack_def
        NewBuilder_def bp_dup_def stack_1_def Let_def MetadataLabel_def BuildpackLayersLabel_def)

lemma addLayers_succeeds:
  "(\<forall>bp \<in> set bps. \<exists>tar. BuildpackToLayerTar_res w t bp = Inr tar) \<Longrightarrow>
   (\<forall>img tar. AddLayer_err w img tar = None) \<Longrightarrow>
   (\<forall>tar. \<exists>d. LayerDiffID_res w tar = Inr d) \<Longrightarrow>
   \<exists>img' l'. snd (addLayers w t bps img l) = Inr (img', l') \<and> Labels img' = Labels img"
proof (induction bps arbitrary: img l)
  case Nil
  then show ?case by simp
next
  case (Cons bp rest)
  from Cons.prems(1) obtain tar where tar: "BuildpackToLayerTar_res w t bp = Inr tar" by auto
  from Cons.prems(3) obtain d where d: "LayerDiffID_res w tar = Inr d" by blast
  from Cons.prems have a: "AddLayer_err w img tar = None" by simp
  from Cons.prems(1) have r: "\<forall>bp \<in> set rest. \<exists>tar. BuildpackToLayerTar_res w t bp = Inr tar"
    by simp
  from Cons.IH [OF r Cons.prems(2) Cons.prems(3),
                of "img\<lparr>Layers := Layers img @ [tar]\<rparr>"
                   "AddBuildpackToLayersMD l (Descriptor bp) d"]
  obtain img' l' where
    "snd (addLayers w t rest (img\<lparr>Layers := Layers img @ [tar]\<rparr>)
            (AddBuildpackToLayersMD l (Descriptor bp) d)) = Inr (img', l')"
    "Labels img' = Labels img" by auto
  with tar d a show ?case by (simp add: Let_def case_prod_beta)
qed


text \<open>
  C5, amended: \<^verbatim>\<open>Save\<close> does not look for repeated stack IDs. Whenever a main
  buildpack is set that declares a stack or has an order, every merge with the stacks of
  a dependency is non-empty and the collaborators succeed, \<^verbatim>\<open>Save\<close> succeeds,
  whether or not a stack ID is repeated, and the metadata label lists the merged stacks:
  with no dependencies, the stacks exactly as the main buildpack's descriptor declares
  them.
\<close>

theorem Save_repeated_stack:
  "buildpack p = Some main \<Longrightarrow>
   Stacks (Descriptor main) \<noteq> [] \<or> bp_Order (Descriptor main) \<noteq> [] \<Longrightarrow>
   mergeDependencies (MergeCompatible w) main (Stacks (Descriptor main)) (dependencies p)
     = Inr stacks \<Longrightarrow>
   NewImage_err w repoName (\<not> publish) = None \<Longrightarrow>
   (\<forall>img key. SetLabel_err w img key = None) \<Longrightarrow>
   TempDir_res w = Inr t \<Longrightarrow>
   (\<forall>bp \<in> set (dependencies p @ [main]). \<exists>tar. BuildpackToLayerTar_res w t bp = Inr tar) \<Longrightarrow>
   (\<forall>img tar. AddLayer_err w img tar = None) \<Longrightarrow>
   (\<forall>tar. \<exists>d. LayerDiffID_res w tar = Inr d) \<Longrightarrow>
   (\<forall>img. Save_err w img = None) \<Longrightarrow>
   (\<exists>img. snd (Save w p repoName publish) = Inr img
      \<and> Labels img MetadataLabel
          = Some (MetadataValue \<lparr> md_BuildpackInfo = Info (Descriptor main),
                                   md_Stacks = stacks \<rparr>))
   \<and> (dependencies p = [] \<longrightarrow> stacks = Stacks (Descriptor main))"
proof -
  assume b: "buildpack p = Some main"
    and s: "Stacks (Descriptor main) \<noteq> [] \<or> bp_Order (Descriptor main) \<noteq> []"
    and m: "mergeDependencies (MergeCompatible w) main (Stacks (Descriptor main))
              (dependencies p) = Inr stacks"
    and n: "NewImage_err w repoName (\<not> publish) = None"
    and sl: "\<forall>img key. SetLabel_err w img key = None"
    and t: "TempDir_res w = Inr t"
    and lt: "\<forall>bp \<in> set (dependencies p @ [main]). \<exists>tar. BuildpackToLayerTar_res w t bp = Inr tar"
    and al: "\<forall>img tar. AddLayer_err w img tar = None"
    and di: "\<forall>tar. \<exists>d. LayerDiffID_res w tar = Inr d"
    and sv: "\<forall>img. Save_err w img = None"
  define img0 where "img0 =
    \<lparr> Name = repoName,
      Labels = [MetadataLabel \<mapsto> MetadataValue
                  \<lparr> md_BuildpackInfo = Info (Descriptor main), md_Stacks = stacks \<rparr>],
      Layers = [] \<rparr>"
  from addLayers_succeeds [OF lt al di, of img0 "[]"] obtain img' l' where
    a: "snd (addLayers w t (dependencies p @ [main]) img0 []) = Inr (img', l')"
    and l: "Labels img' = Labels img0" by blast
  from a sl sv l
  have "snd (Save_layers w t (dependencies p @ [main]) img0)
          = Inr (img'\<lparr> Labels := (Labels img')
                          (BuildpackLayersLabel \<mapsto> BuildpackLayersValue l') \<rparr>)"
    by (cases "addLayers w t (dependencies p @ [main]) img0 []")
       (simp add: Save_layers_def Let_def)
  with b s m n sl t
  have "snd (Save w p repoName publish)
          = Inr (img'\<lparr> Labels := (Labels img')
                          (BuildpackLayersLabel \<mapsto> BuildpackLayersValue l') \<rparr>)"
    by (auto simp: Save_def Let_def case_prod_beta img0_def)
  moreover have "Labels (img'\<lparr> Labels := (Labels img')
                          (BuildpackLayersLabel \<mapsto> BuildpackLayersValue l') \<rparr>) MetadataLabel
       = Some (MetadataValue \<lparr> md_BuildpackInfo = Info (Descriptor main), md_Stacks = stacks \<rparr>)"
    using l by (simp add: img0_def MetadataLabel_def BuildpackLayersLabel_def)
  moreover from m have "dependencies p = [] \<longrightarrow> stacks = Stacks (Descriptor main)"
    by auto
  ultimately show ?thesis by blast
qed


theorem Save_repeated_stack_witness:
  "(\<exists>img. snd (Save collab_ok (SetBuildpack NewBuilder bp_dup) ''some/package'' False) = Inr img
      \<and> Labels img MetadataLabel
          = Some (MetadataValue \<lparr> md_BuildpackInfo = Info (Descriptor bp_dup),
                                   md_Stacks = [stack_1, stack_1] \<rparr>))
   \<and> (\<exists>img. snd (Save collab_ok (AddDependency (SetBuildpack NewBuilder bp_dup) bp_1)
                    ''some/package'' False) = Inr img
      \<and> Labels img MetadataLabel
          = Some (MetadataValue \<lparr> md_BuildpackInfo = Info (Descriptor bp_dup),
                                   md_Stacks = [stack_1, stack_1] \<rparr>))"
proof -
  have s: "Stacks (Descriptor bp_dup) = [stack_1, stack_1]" by (simp add: bp_dup_def)
  have "(\<exists>img. snd (Save collab_ok (SetBuildpack NewBuilder bp_dup) ''some/package'' False) = Inr img
     \<and> Labels img MetadataLabel
         = Some (MetadataValue \<lparr> md_BuildpackInfo = Info (Descriptor bp_dup),
                                  md_Stacks = Stacks (Descriptor bp_dup) \<rparr>))
     \<and> (dependencies (SetBuildpack NewBuilder bp_dup) = []
          \<longrightarrow> Stacks (Descriptor bp_dup) = Stacks (Descriptor bp_dup))"
    by (rule Save_repeated_stack [where t = "''/tmp/create-package''"])
       (simp_all add: collab_ok_def SetBuildpack_def NewBuilder_def bp_dup_def)
  moreover
  have "(\<exists>img. snd (Save collab_ok (AddDependency (SetBuildpack NewBuilder bp_dup) bp_1)
                    ''some/package'' False) = Inr img
     \<and> Labels img MetadataLabel
         = Some (MetadataValue \<lparr> md_BuildpackInfo = Info (Descriptor bp_dup),
                                  md_Stacks = [stack_1, stack_1] \<rparr>))
     \<and> (dependencies (AddDependency (SetBuildpack NewBuilder bp_dup) bp_1) = []
          \<longrightarrow> [stack_1, stack_1] = Stacks (Descriptor bp_dup))"
    by (rule Save_repeated_stack [where t = "''/tmp/create-package''"])
       (simp_all add: collab_ok_def SetBuildpack_def AddDependency_def NewBuilder_def bp_dup_def
          bp_1_def stack_1_def stack_MergeCompatible_def)
  ultimately show ?thesis using s by simp
qed

section \<open>Properties of the ephemeral builder\<close>

lemma ephemeralName_example: "ephemeralName (\<lambda>i. i) = scratch_name"
  by code_simp

lemma addBuildpacks_calls:
  "saved_names (fst (addBuildpacks bldr bps)) = []
   \<and> filter is_ImageSave (fst (addBuildpacks bldr bps)) = []
   \<and> filter is_ImageRemove (fst (addBuildpacks bldr bps)) = []
   \<and> bldr_image (snd (addBuildpacks bldr bps)) = bldr_image bldr
   \<and> bldr_PlatformAPIVersion (snd (addBuildpacks bldr bps)) = bldr_PlatformAPIVersion bldr"
  by (induction bps arbitrary: bldr) (auto simp: Let_def after_def builder_AddBuildpack_def)

lemma saved_names_append: "saved_names (xs @ ys) = saved_names xs @ saved_names ys"
  by (induction xs rule: saved_names.induct) auto

lemma createEphemeralBuilder_cases:
  "createEphemeralBuilder c base env grp bps = (calls, h, r) \<Longrightarrow>
     Name h = ephemeralName (cl_rand c)
     \<and> filter is_ImageRemove calls = []
     \<and> ((\<exists>e. r = Inl e) \<and> (filter is_ImageSave calls = []
                               \<or> (\<exists>m. filter is_ImageSave calls = [ImageSave h (Some m)]))
        \<or> (\<exists>b. r = Inr b \<and> bldr_image b = h \<and> filter is_ImageSave calls = [ImageSave h None]))"
  using addBuildpacks_calls [of "builder_SetEnv
          \<lparr> bldr_image = base\<lparr> Name := ephemeralName (cl_rand c) \<rparr>, bldr_env = [],
            bldr_additionalBuildpacks = [], bldr_order = None,
            bldr_PlatformAPIVersion = projr (cl_builder_FromImage c
                 (base\<lparr> Name := ephemeralName (cl_rand c) \<rparr>)) \<rparr> env" bps]
  by (auto simp: createEphemeralBuilder_def Let_def builder_FromImage_def builder_Save_def
        builder_SetOrder_def builder_SetEnv_def
        split: sum.splits option.splits if_splits)


lemma saved_names_filter:
  "filter is_ImageSave calls = xs \<Longrightarrow> saved_names calls = saved_names xs"
proof -
  have "saved_names calls = saved_names (filter is_ImageSave calls)"
    by (induction calls rule: saved_names.induct) auto
  then show "filter is_ImageSave calls = xs \<Longrightarrow> saved_names calls = saved_names xs"
    by simp
qed

text \<open>
  C3, amended: \<^verbatim>\<open>createEphemeralBuilder\<close> renames the base builder image handle that it
  is given, not a copy, to the scratch name, and the handle carries the scratch name when
  the function returns, on success and on failure. What it never touches is the image
  stored under the original name: the scratch name is the only name under which it saves
  an image, and it removes none. So, when the scratch name differs from the original
  name, the handle has lost the original name and nothing is saved under it: the base
  remains fetchable there. On success the builder returned wraps that same handle.
\<close>

theorem createEphemeralBuilder_renames:
  "createEphemeralBuilder c base env grp bps = (calls, h, r) \<Longrightarrow>
     Name h = ephemeralName (cl_rand c)
     \<and> set (saved_names calls) \<subseteq> {ephemeralName (cl_rand c)}
     \<and> filter is_ImageRemove calls = []
     \<and> (Name base \<noteq> ephemeralName (cl_rand c)
          \<longrightarrow> Name h \<noteq> Name base \<and> Name base \<notin> set (saved_names calls))
     \<and> (r = Inr b \<longrightarrow> bldr_image b = h \<and> saved_names calls = [ephemeralName (cl_rand c)])"
proof -
  assume a: "createEphemeralBuilder c base env grp bps = (calls, h, r)"
  note C = createEphemeralBuilder_cases [OF a]
  from C have n: "Name h = ephemeralName (cl_rand c)" by simp
  from C n have s: "set (saved_names calls) \<subseteq> {ephemeralName (cl_rand c)}"
    by (auto dest!: saved_names_filter)
  from C n have b: "r = Inr b \<longrightarrow> bldr_image b = h \<and> saved_names calls = [ephemeralName (cl_rand c)]"
    by (auto dest!: saved_names_filter)
  from C n s b show ?thesis by auto
qed

lemma createEphemeralBuilder_example:
  "createEphemeralBuilder client_ok base_builder [] [] [] =
     ([ImageSave scratch_image None], scratch_image,
      Inr \<lparr> bldr_image = scratch_image, bldr_env = [], bldr_additionalBuildpacks = [],
            bldr_order = None, bldr_PlatformAPIVersion = ''0.2'' \<rparr>)"
  by (simp add: createEphemeralBuilder_def Let_def builder_FromImage_def builder_SetEnv_def
        builder_Save_def scratch_image_def base_builder_def client_ok_def
        ephemeralName_example)

text \<open>
  C3, as the specification states it, fails: \<^verbatim>\<open>createEphemeralBuilder\<close> makes no working
  copy. It calls \<^verbatim>\<open>Rename\<close> on the base builder image handle that it is given, so
  when it completes the base image handle no longer carries its original name.
\<close>

theorem createEphemeralBuilder_renames_counterexample:
  "Name base_builder = ''cnbs/sample-builder:bionic''
   \<and> Name (fst (snd (createEphemeralBuilder client_ok base_builder [] [] [])))
       = ''pack.local/builder/6162636465666768696a:latest''"
proof -
  have "Name (fst (snd (createEphemeralBuilder client_ok base_builder [] [] []))) = scratch_name"
    by (simp add: createEphemeralBuilder_example scratch_image_def)
  then show ?thesis by (simp add: scratch_name_def base_builder_def)
qed

theorem createEphemeralBuilder_renames_witness:
  "Name scratch_image = scratch_name
   \<and> Name scratch_image \<noteq> Name base_builder
   \<and> Name base_builder \<notin> set (saved_names [ImageSave scratch_image None])"
proof -
  have n: "ephemeralName (cl_rand client_ok) = scratch_name"
    by (simp add: client_ok_def ephemeralName_example)
  have d: "Name base_builder \<noteq> scratch_name"
    by (simp add: base_builder_def scratch_name_def)
  from createEphemeralBuilder_renames [OF createEphemeralBuilder_example] n d
  show ?thesis by simp
qed

lemma validateRunImage_calls:
  "filter is_ImageSave (fst (validateRunImage c n noPull publish s)) = []
   \<and> filter is_ImageRemove (fst (validateRunImage c n noPull publish s)) = []"
  by (simp add: validateRunImage_def after_def split: sum.splits prod.splits)

lemma processBuildpacks_loop_calls:
  "filter is_ImageSave (fst (processBuildpacks_loop c tokens bps grp)) = []
   \<and> filter is_ImageRemove (fst (processBuildpacks_loop c tokens bps grp)) = []"
  by (induction tokens arbitrary: bps grp)
     (auto simp: after_def filter_empty_conv split: sum.splits prod.splits option.splits)

lemma processBuildpacks_calls:
  "filter is_ImageSave (fst (processBuildpacks c tokens)) = []
   \<and> filter is_ImageRemove (fst (processBuildpacks c tokens)) = []"
  by (simp add: processBuildpacks_def processBuildpacks_loop_calls)

section \<open>Properties of Build\<close>

lemma after_Nil: "after [] x = x"
  by (simp add: after_def)

lemma Build_deferred_calls:
  "\<exists>post r. Build_deferred c opts appPath imageRef runImageName proxyConfig eph
              = (post @ [ImageRemove (Name (bldr_image eph))], r)
     \<and> (post = [] \<and> r \<noteq> None \<or> (\<exists>lo. post = [LifecycleExecute lo]))"
  by (simp add: Build_deferred_def Let_def)

lemma Build_rule:
  fixes P :: "call list \<times> error option \<Rightarrow> bool"
  assumes early: "\<And>e. P ([], Some e)"
    and aft: "\<And>pre x. filter is_ImageSave pre = [] \<Longrightarrow> filter is_ImageRemove pre = []
                 \<Longrightarrow> P x \<Longrightarrow> P (after pre x)"
    and failed: "\<And>comp e. \<forall>img. ImageSave img None \<notin> set comp \<Longrightarrow>
                   filter is_ImageRemove comp = [] \<Longrightarrow> P (after comp ([], Some e))"
    and composed: "\<And>comp (eph :: Builder) post r.
                   filter is_ImageSave comp = [ImageSave (bldr_image eph) None] \<Longrightarrow>
                   filter is_ImageRemove comp = [] \<Longrightarrow>
                   post = [] \<and> r \<noteq> None \<or> (\<exists>lo. post = [LifecycleExecute lo]) \<Longrightarrow>
                   P (after comp (post @ [ImageRemove (Name (bldr_image eph))], r))"
  shows "P (Build c opts)"
proof -
  have compose: "P (after (fst (createEphemeralBuilder c raw env grp bps))
                     (case snd (snd (createEphemeralBuilder c raw env grp bps)) of
                        Inl e \<Rightarrow> ([], Some e)
                      | Inr eph \<Rightarrow> Build_deferred c opts appPath imageRef runImageName proxyConfig eph))"
    for raw env grp bps appPath imageRef runImageName proxyConfig
  proof -
    obtain comp h r where X: "createEphemeralBuilder c raw env grp bps = (comp, h, r)"
      by (cases "createEphemeralBuilder c raw env grp bps") auto
    note C = createEphemeralBuilder_cases [OF X]
    show ?thesis
    proof (cases r)
      case (Inl e)
      with C have "\<forall>img. ImageSave img None \<notin> set comp"
        by (auto dest: ImageSave_filter)
      with C Inl X show ?thesis by (simp add: failed)
    next
      case (Inr eph)
      with C have s: "filter is_ImageSave comp = [ImageSave (bldr_image eph) None]"
        and rm: "filter is_ImageRemove comp = []" by auto
      from Build_deferred_calls [of c opts appPath imageRef runImageName proxyConfig eph]
      obtain post r' where
        d: "Build_deferred c opts appPath imageRef runImageName proxyConfig eph
              = (post @ [ImageRemove (Name (bldr_image eph))], r')"
        and p: "post = [] \<and> r' \<noteq> None \<or> (\<exists>lo. post = [LifecycleExecute lo])"
        by blast
      from composed [OF s rm p] d Inr X show ?thesis by simp
    qed
  qed
  have vr: "filter is_ImageSave (fst (validateRunImage c n np pb s)) = []"
           "filter is_ImageRemove (fst (validateRunImage c n np pb s)) = []" for n np pb s
    using validateRunImage_calls by auto
  have pb: "filter is_ImageSave (fst (processBuildpacks c ts)) = []"
           "filter is_ImageRemove (fst (processBuildpacks c ts)) = []" for ts
    using processBuildpacks_calls by auto
  have sum_case: "(\<And>m. P (f m)) \<Longrightarrow> (\<And>y. P (g y)) \<Longrightarrow> P (case v of Inl m \<Rightarrow> f m | Inr y \<Rightarrow> g y)"
    for f :: "'x \<Rightarrow> call list \<times> error option" and g :: "'y \<Rightarrow> call list \<times> error option" and v
    by (cases v) auto
  have opt_case: "(\<And>e. P (f e)) \<Longrightarrow> P x \<Longrightarrow> P (case v of Some e \<Rightarrow> f e | None \<Rightarrow> x)"
    for f :: "'x \<Rightarrow> call list \<times> error option" and x v
    by (cases v) auto
  have prod_case: "(\<And>a b. P (g a b)) \<Longrightarrow> P (case y of (a, b) \<Rightarrow> g a b)"
    for g :: "'x \<Rightarrow> 'y \<Rightarrow> call list \<times> error option" and y
    by (cases y) auto
  have if_case: "P a \<Longrightarrow> P b \<Longrightarrow> P (if q then a else b)" for a b q
    by simp
  note cases = sum_case opt_case prod_case if_case
  show ?thesis
    unfolding Build_def Let_def
    apply (intro cases early)
    apply (rule aft, simp, simp)
    apply (intro cases early)
    apply (rule aft, rule vr, rule vr)
    apply (intro cases early)
    apply (rule aft, rule pb, rule pb)
    apply (intro cases early)
    apply (rule compose)
    done
qed

text \<open>
  C8: once the ephemeral builder image has been composed inside \<^verbatim>\<open>Build\<close>, which
  in the trace is the successful save of the scratch image, the removal of that image is
  the last call that \<^verbatim>\<open>Build\<close> makes, and its only removal, on every path that
  follows: whether the platform API check fails, the lifecycle fails or the lifecycle
  succeeds.
\<close>

theorem Build_removes_scratch:
  "ImageSave img None \<in> set (fst (Build c opts)) \<Longrightarrow>
     fst (Build c opts) \<noteq> []
     \<and> last (fst (Build c opts)) = ImageRemove (Name img)
     \<and> filter is_ImageRemove (fst (Build c opts)) = [ImageRemove (Name img)]"
proof (induction rule: Build_rule [of _ c opts])
  case (1 e)
  then show ?case by simp
next
  case (2 pre x)
  from 2(1) have "ImageSave img None \<notin> set pre"
    by (auto dest: ImageSave_filter)
  with 2 show ?case by (auto simp: after_def)
next
  case (3 comp e)
  then show ?case by (simp add: after_def)
next
  case (4 comp eph post r)
  from 4(3) have p: "ImageSave img None \<notin> set post" "filter is_ImageRemove post = []"
    by auto
  with 4(4) have "ImageSave img None \<in> set comp" by (simp add: after_def)
  with 4(1) have "img = bldr_image eph" by (auto dest: ImageSave_filter)
  with 4(2) p show ?case by (simp add: after_def)
qed

lemmas example_defs =
  Build_def Build_deferred_def Let_def after_def processBuilderName_def validateRunImage_def
  processBuildpacks_def validateMixins_def validateCommonMixins_def findMissing_def
  allBuildpacks_def assembleAvailableMixins_def createEphemeralBuilder_def
  builder_FromImage_def builder_SetEnv_def builder_Save_def processProxyConfig_def
  os_LookupEnv_def os_Getenv_def ephemeralName_example
  client_ok_def client_old_builder_def client_lifecycle_fails_def build_options_def
  base_builder_def run_image_def scratch_image_def

lemma Build_example_ok:
  "fst (Build client_ok build_options) =
     [Fetch ''cnbs/sample-builder:bionic'' True True,
      Fetch ''cnbs/sample-stack-run:bionic'' True True,
      ImageSave scratch_image None,
      LifecycleExecute
        \<lparr> lo_AppPath = ''/workspace/app'',
          lo_Image = \<lparr> ref_Name = ''some/app'', ref_RegistryStr = ''index.docker.io'' \<rparr>,
          lo_Builder = \<lparr> bldr_image = scratch_image, bldr_env = [],
                         bldr_additionalBuildpacks = [], bldr_order = None,
                         bldr_PlatformAPIVersion = ''0.2'' \<rparr>,
          lo_RunImage = ''cnbs/sample-stack-run:bionic'',
          lo_ClearCache = False, lo_Publish = False,
          lo_HTTPProxy = '''', lo_HTTPSProxy = '''', lo_NoProxy = '''', lo_Network = '''' \<rparr>,
      ImageRemove scratch_name]
   \<and> snd (Build client_ok build_options) = None"
  by (simp add: example_defs)

lemma Build_example_old_builder:
  "fst (Build client_old_builder build_options) =
     [Fetch ''cnbs/sample-builder:bionic'' True True,
      Fetch ''cnbs/sample-stack-run:bionic'' True True,
      ImageSave scratch_image None,
      ImageRemove scratch_name]
   \<and> snd (Build client_old_builder build_options) =
       Some (IncompatiblePlatformAPI ''0.6.0'' ''0.2'' ''cnbs/sample-builder:bionic'' ''0.1'')"
  by (simp add: example_defs)

lemma Build_example_lifecycle_fails:
  "fst (Build client_lifecycle_fails build_options) =
     [Fetch ''cnbs/sample-builder:bionic'' True True,
      Fetch ''cnbs/sample-stack-run:bionic'' True True,
      ImageSave scratch_image None,
      LifecycleExecute
        \<lparr> lo_AppPath = ''/workspace/app'',
          lo_Image = \<lparr> ref_Name = ''some/app'', ref_RegistryStr = ''index.docker.io'' \<rparr>,
          lo_Builder = \<lparr> bldr_image = scratch_image, bldr_env = [],
                         bldr_additionalBuildpacks = [], bldr_order = None,
                         bldr_PlatformAPIVersion = ''0.2'' \<rparr>,
          lo_RunImage = ''cnbs/sample-stack-run:bionic'',
          lo_ClearCache = False, lo_Publish = False,
          lo_HTTPProxy = '''', lo_HTTPSProxy = '''', lo_NoProxy = '''', lo_Network = '''' \<rparr>,
      ImageRemove scratch_name]
   \<and> snd (Build client_lifecycle_fails build_options) = Some (External ''executing lifecycle'')"
  by (simp add: example_defs)

theorem Build_removes_scratch_witness:
  "last (fst (Build client_ok build_options)) = ImageRemove scratch_name
   \<and> snd (Build client_ok build_options) = None
   \<and> last (fst (Build client_old_builder build_options)) = ImageRemove scratch_name
   \<and> snd (Build client_old_builder build_options) =
       Some (IncompatiblePlatformAPI ''0.6.0'' ''0.2'' ''cnbs/sample-builder:bionic'' ''0.1'')
   \<and> last (fst (Build client_lifecycle_fails build_options)) = ImageRemove scratch_name
   \<and> snd (Build client_lifecycle_fails build_options) = Some (External ''executing lifecycle'')"
proof -
  have n: "Name scratch_image = scratch_name" by (simp add: scratch_image_def)
  have a: "ImageSave scratch_image None \<in> set (fst (Build client_ok build_options))"
    by (simp add: Build_example_ok)
  have b: "ImageSave scratch_image None \<in> set (fst (Build client_old_builder build_options))"
    by (simp add: Build_example_old_builder)
  have c: "ImageSave scratch_image None \<in> set (fst (Build client_lifecycle_fails build_options))"
    by (simp add: Build_example_lifecycle_fails)
  from Build_removes_scratch [OF a] Build_removes_scratch [OF b] Build_removes_scratch [OF c]
       n Build_example_ok Build_example_old_builder Build_example_lifecycle_fails
  show ?thesis by simp
qed

end
